theory Spec2Isabelle
  imports Complex_Main "HOL-Library.Multiset"
begin

section \<open>Python values and errors\<close>

text \<open>
  The exceptions the modelled functions can raise. A function that can raise returns
  \<open>py_error + 'a\<close>, with \<open>Inl\<close> for the exception. Python floats are modelled as
  real numbers, so rounding of the floating-point operations is not part of the model.
\<close>

datatype py_error =
  ValueError | IndexError | KeyError | ZeroDivisionError | UnboundLocalError | TypeError

text \<open>
  A call that can raise, followed by the code that uses its value: the first exception
  ends the computation.
\<close>

definition py_bind :: "py_error + 'a \<Rightarrow> ('a \<Rightarrow> py_error + 'b) \<Rightarrow> py_error + 'b" where
  "py_bind m f = (case m of Inl e \<Rightarrow> Inl e | Inr x \<Rightarrow> f x)"

text \<open>
  Strings are lists of characters with codes below 256, read as the Unicode code points
  of the same number. The whitespace characters of \<open>str.split()\<close>, \<open>str.strip()\<close> and
  of \<open>\s\<close> in a regular expression are, in this range, the blank, the controls
  U+0009 to U+000D and U+001C to U+001F, U+0085 and U+00A0.
\<close>

definition is_space :: "char \<Rightarrow> bool" where
  "is_space c = (c \<in> set [CHR '' '', CHR 0x09, CHR 0x0A, CHR 0x0B, CHR 0x0C, CHR 0x0D,
                             CHR 0x1C, CHR 0x1D, CHR 0x1E, CHR 0x1F, CHR 0x85, CHR 0xA0])"

text \<open>
  \<open>s.split()\<close> without a separator: the maximal runs of characters that are not
  whitespace, in order; no empty piece. The first argument is the piece being read.
\<close>

fun split_ws_loop :: "string \<Rightarrow> string \<Rightarrow> string list" where
  "split_ws_loop w [] = (if w = [] then [] else [w])"
| "split_ws_loop w (c # s) =
     (if is_space c then (if w = [] then split_ws_loop [] s else w # split_ws_loop [] s)
      else split_ws_loop (w @ [c]) s)"

definition py_split_ws :: "string \<Rightarrow> string list" where
  "py_split_ws s = split_ws_loop [] s"

text \<open>\<open>s.strip()\<close>: the string without its leading and trailing whitespace.\<close>

definition py_strip :: "string \<Rightarrow> string" where
  "py_strip s = rev (dropWhile is_space (rev (dropWhile is_space s)))"

text \<open>\<open>str(n)\<close> for a Python int: decimal digits, with a leading minus sign.\<close>

definition digit_char :: "nat \<Rightarrow> char" where
  "digit_char d = ''0123456789'' ! d"

fun str_nat :: "nat \<Rightarrow> string" where
  "str_nat n = (if n < 10 then [digit_char n] else str_nat (n div 10) @ [digit_char (n mod 10)])"

declare str_nat.simps [simp del]

definition py_str :: "int \<Rightarrow> string" where
  "py_str i = (if i < 0 then CHR ''-'' # str_nat (nat (- i)) else str_nat (nat i))"

definition is_digit :: "char \<Rightarrow> bool" where
  "is_digit c = (c \<in> set ''0123456789'')"

definition digit_val :: "char \<Rightarrow> nat" where
  "digit_val c = length (takeWhile (\<lambda>d. d \<noteq> c) ''0123456789'')"

text \<open>
  \<open>int(s)\<close> on a string of at most one character, which is all that \<open>str(MMI)[:1]\<close>
  can be: a decimal digit converts, anything else (the empty string, a sign) raises
  ValueError.
\<close>

definition py_int_1 :: "string \<Rightarrow> py_error + int" where
  "py_int_1 s = (case s of
       [c] \<Rightarrow> if is_digit c then Inr (int (digit_val c)) else Inl ValueError
     | _ \<Rightarrow> Inl ValueError)"

section \<open>ShakeAlertParser: contours\<close>

text \<open>
  One element of a message's \<open>ground_motion_contours\<close> list, as parsed from JSON:
  the keys \<open>mmi\<close>, \<open>pga\<close>, \<open>pgv\<close> and \<open>polygon\<close> (a string of blank-separated
  \<open>lat,lon\<close> tokens). The MMI is taken to be a JSON integer.
\<close>

record contour_json =
  json_mmi :: int
  json_pga :: real
  json_pgv :: real
  json_polygon :: string

text \<open>
  \<open>Get_polygons\<close>: the loop appends \<open>[int(str(MMI)[:1]), polystr]\<close> for each contour;
  the result is \<open>sorted(allMMIpolys, key=lambda x: x[0], reverse=True)\<close>, a stable sort
  on the truncated MMI, greatest first.
\<close>

fun Get_polygons_loop ::
  "contour_json list \<Rightarrow> (int \<times> string) list \<Rightarrow> py_error + (int \<times> string) list" where
  "Get_polygons_loop [] allMMIpolys = Inr allMMIpolys"
| "Get_polygons_loop (contour # rest) allMMIpolys =
     (let MMIval = take 1 (py_str (json_mmi contour)); polystr = json_polygon contour in
      case py_int_1 MMIval of
        Inl e \<Rightarrow> Inl e
      | Inr v \<Rightarrow> Get_polygons_loop rest (allMMIpolys @ [(v, polystr)]))"

definition Get_polygons :: "contour_json list \<Rightarrow> py_error + (int \<times> string) list" where
  "Get_polygons gm_contours =
     (case Get_polygons_loop gm_contours [] of
        Inl e \<Rightarrow> Inl e
      | Inr allMMIpolys \<Rightarrow> Inr (sort_key (\<lambda>x. - fst x) allMMIpolys))"

text \<open>
  \<open>Coord\<close>: a named tuple of \<open>lat\<close> and \<open>lon\<close>. The test suite builds coordinates
  from strings and the parser from the tokens of the polygon string, so the field type is
  left open. \<open>__eq__\<close> and \<open>__ne__\<close> compare field by field.
\<close>

record 'a Coord =
  lat :: 'a
  lon :: 'a

definition Coord_eq :: "'a Coord \<Rightarrow> 'a Coord \<Rightarrow> bool" where
  "Coord_eq self other = (lat self = lat other \<and> lon self = lon other)"

definition Coord_ne :: "'a Coord \<Rightarrow> 'a Coord \<Rightarrow> bool" where
  "Coord_ne self other = (lat self \<noteq> lat other \<or> lon self \<noteq> lon other)"

text \<open>
  \<open>GMContour.__init__\<close>: \<open>polygon[0] != polygon[-1]\<close> raises ValueError; the index
  expressions themselves raise IndexError on an empty list. Otherwise the four arguments
  are stored as they are.
\<close>

record 'a GMContour =
  mmi :: int
  polygon :: "'a Coord list"
  pga :: "real option"
  pgv :: "real option"

definition GMContour_init ::
  "int \<Rightarrow> 'a Coord list \<Rightarrow> real option \<Rightarrow> real option \<Rightarrow> py_error + 'a GMContour" where
  "GMContour_init mmi_arg polygon_arg pga_arg pgv_arg =
     (if polygon_arg = [] then Inl IndexError
      else if Coord_ne (polygon_arg ! 0) (last polygon_arg) then Inl ValueError
      else Inr \<lparr>mmi = mmi_arg, polygon = polygon_arg, pga = pga_arg, pgv = pgv_arg\<rparr>)"

section \<open>EQCalculations: point in polygon and intensity lookup\<close>

text \<open>
  \<open>point_in_poly\<close>. The loop state is \<open>inside\<close>, the previous vertex \<open>(p1x, p1y)\<close> and
  \<open>xints\<close>, which is unbound until its first assignment. The division raises
  ZeroDivisionError on a zero denominator, and reading an unbound \<open>xints\<close> raises
  UnboundLocalError; \<open>p1x == p2x or x <= xints\<close> reads \<open>xints\<close> only when the first
  disjunct is false.
\<close>

definition py_truediv :: "real \<Rightarrow> real \<Rightarrow> py_error + real" where
  "py_truediv a b = (if b = 0 then Inl ZeroDivisionError else Inr (a / b))"

record pip_state =
  inside :: bool
  p1x :: real
  p1y :: real
  xints :: "real option"

definition assign_xints :: "real \<Rightarrow> real \<Rightarrow> real \<Rightarrow> pip_state \<Rightarrow> py_error + pip_state" where
  "assign_xints y p2x p2y s =
     (if p1y s \<noteq> p2y then
        (case py_truediv ((y - p1y s) * (p2x - p1x s)) (p2y - p1y s) of
           Inl e \<Rightarrow> Inl e
         | Inr q \<Rightarrow> Inr (s\<lparr>xints := Some (q + p1x s)\<rparr>))
      else Inr s)"

definition toggle_inside :: "real \<Rightarrow> real \<Rightarrow> pip_state \<Rightarrow> py_error + pip_state" where
  "toggle_inside x p2x s =
     (if p1x s = p2x then Inr (s\<lparr>inside := \<not> inside s\<rparr>)
      else (case xints s of
              None \<Rightarrow> Inl UnboundLocalError
            | Some xi \<Rightarrow> if x \<le> xi then Inr (s\<lparr>inside := \<not> inside s\<rparr>) else Inr s))"

definition edge_step :: "real \<Rightarrow> real \<Rightarrow> pip_state \<Rightarrow> real \<times> real \<Rightarrow> py_error + pip_state" where
  "edge_step x y s p2 =
     (let p2x = fst p2; p2y = snd p2 in
      case (if y > min (p1y s) p2y then
              if y \<le> max (p1y s) p2y then
                if x \<le> max (p1x s) p2x then
                  (case assign_xints y p2x p2y s of
                     Inl e \<Rightarrow> Inl e
                   | Inr s1 \<Rightarrow> toggle_inside x p2x s1)
                else Inr s
              else Inr s
            else Inr s) of
        Inl e \<Rightarrow> Inl e
      | Inr s2 \<Rightarrow> Inr (s2\<lparr>p1x := p2x, p1y := p2y\<rparr>))"

fun pip_loop :: "real \<Rightarrow> real \<Rightarrow> (real \<times> real) list \<Rightarrow> pip_state \<Rightarrow> py_error + bool" where
  "pip_loop x y [] s = Inr (inside s)"
| "pip_loop x y (p2 # ps) s =
     (case edge_step x y s p2 of Inl e \<Rightarrow> Inl e | Inr s' \<Rightarrow> pip_loop x y ps s')"

definition point_in_poly :: "real \<Rightarrow> real \<Rightarrow> (real \<times> real) list \<Rightarrow> py_error + bool" where
  "point_in_poly x y poly =
     (let n = length poly in
      if poly = [] then Inl IndexError
      else pip_loop x y (map (\<lambda>i. poly ! (i mod n)) [0..<n + 1])
             \<lparr>inside = False, p1x = fst (poly ! 0), p1y = snd (poly ! 0), xints = None\<rparr>)"

text \<open>
  \<open>s.split(sep)\<close> with a one-character separator: the pieces between the separators,
  empty pieces included.
\<close>

fun py_split :: "char \<Rightarrow> string \<Rightarrow> string list" where
  "py_split sep [] = [[]]"
| "py_split sep (c # cs) =
     (if c = sep then [] # py_split sep cs
      else (case py_split sep cs of
              [] \<Rightarrow> [[c]]
            | w # ws \<Rightarrow> (c # w) # ws))"

text \<open>
  The values \<open>getIntensityLevel\<close> returns are the int \<open>MMIval\<close> of the list or a string.
\<close>

datatype py_val = PyInt int | PyStr string

definition intensityRomanNumeral :: "int \<Rightarrow> py_val" where
  "intensityRomanNumeral MMI =
     (if MMI = 1 then PyStr ''<II''
      else if MMI = 2 then PyStr ''II''
      else if MMI = 3 then PyStr ''III''
      else if MMI = 4 then PyStr ''IV''
      else if MMI = 5 then PyStr ''V''
      else if MMI = 6 then PyStr ''VI''
      else if MMI = 7 then PyStr ''VII''
      else if MMI = 8 then PyStr ''VIII''
      else if MMI = 9 then PyStr ''IX''
      else if MMI = 10 then PyStr ''X''
      else PyInt MMI)"

text \<open>
  The inner loop of \<open>getIntensityLevel\<close>: each blank-separated token must split at commas
  into exactly two parts (\<open>latp,lonp = latlon.split(',')\<close>, ValueError otherwise), and
  \<open>(float(lonp), float(latp))\<close> is appended. Python's built-in \<open>float\<close> is the parameter
  \<open>py_float\<close>, with \<open>None\<close> for the strings on which it raises ValueError.
\<close>

fun polygon_of_tokens ::
  "(string \<Rightarrow> real option) \<Rightarrow> string list \<Rightarrow> py_error + (real \<times> real) list" where
  "polygon_of_tokens py_float [] = Inr []"
| "polygon_of_tokens py_float (latlon # rest) =
     (case py_split CHR '','' latlon of
        [latp, lonp] \<Rightarrow>
          (case py_float lonp of
             None \<Rightarrow> Inl ValueError
           | Some lo \<Rightarrow>
               (case py_float latp of
                  None \<Rightarrow> Inl ValueError
                | Some la \<Rightarrow>
                    (case polygon_of_tokens py_float rest of
                       Inl e \<Rightarrow> Inl e
                     | Inr polygon_rest \<Rightarrow> Inr ((lo, la) # polygon_rest))))
      | _ \<Rightarrow> Inl ValueError)"

definition parse_polygon_coords ::
  "(string \<Rightarrow> real option) \<Rightarrow> string \<Rightarrow> py_error + (real \<times> real) list" where
  "parse_polygon_coords py_float polygon_coords =
     polygon_of_tokens py_float (py_split CHR '' '' polygon_coords)"

fun getIntensityLevel ::
  "(string \<Rightarrow> real option) \<Rightarrow> (int \<times> string) list \<Rightarrow> real \<Rightarrow> real \<Rightarrow> bool \<Rightarrow> py_error + py_val"
  where
  "getIntensityLevel py_float [] lat_arg lon_arg getRomanNum =
     (if getRomanNum then Inr (PyStr ''<II'') else Inr (PyStr ''1''))"
| "getIntensityLevel py_float ((MMIval, polygon_coords) # rest) lat_arg lon_arg getRomanNum =
     (case parse_polygon_coords py_float polygon_coords of
        Inl e \<Rightarrow> Inl e
      | Inr poly \<Rightarrow>
          (case point_in_poly lon_arg lat_arg poly of
             Inl e \<Rightarrow> Inl e
           | Inr True \<Rightarrow>
               if getRomanNum then Inr (intensityRomanNumeral MMIval) else Inr (PyInt MMIval)
           | Inr False \<Rightarrow> getIntensityLevel py_float rest lat_arg lon_arg getRomanNum))"

text \<open>
  Whether the polygon of one list entry parses and contains the point: the test the loop
  of \<open>getIntensityLevel\<close> makes on each entry.
\<close>

definition entry_contains :: "(string \<Rightarrow> real option) \<Rightarrow> real \<Rightarrow> real \<Rightarrow> int \<times> string \<Rightarrow> bool" where
  "entry_contains py_float lat_arg lon_arg entry =
     (case parse_polygon_coords py_float (snd entry) of
        Inl e \<Rightarrow> False
      | Inr poly \<Rightarrow> point_in_poly lon_arg lat_arg poly = Inr True)"

section \<open>Python dictionaries\<close>

text \<open>
  A dict is a list of key-value pairs in insertion order, each key once. \<open>d[k] = v\<close>
  replaces the value of a key that is present, in place, and appends a new key at the end;
  \<open>d[k]\<close> raises KeyError on a key that is absent.
\<close>

fun dict_set :: "'k \<Rightarrow> 'v \<Rightarrow> ('k \<times> 'v) list \<Rightarrow> ('k \<times> 'v) list" where
  "dict_set k v [] = [(k, v)]"
| "dict_set k v (kv # d) = (if fst kv = k then (k, v) # d else kv # dict_set k v d)"

definition dict_get :: "('k \<times> 'v) list \<Rightarrow> 'k \<Rightarrow> py_error + 'v" where
  "dict_get d k = (case map_of d k of None \<Rightarrow> Inl KeyError | Some v \<Rightarrow> Inr v)"

definition dict_keys :: "('k \<times> 'v) list \<Rightarrow> 'k list" where
  "dict_keys d = map fst d"

section \<open>PyEventImage: alert circles\<close>

text \<open>\<open>math.sqrt\<close> raises ValueError on a negative argument.\<close>

definition py_sqrt :: "real \<Rightarrow> py_error + real" where
  "py_sqrt x = (if x < 0 then Inl ValueError else Inr (sqrt x))"

text \<open>
  \<open>get_alert_circle_params\<close>: the keys are the durations of \<open>radii_show\<close>, the dict starts
  as \<open>dict.fromkeys(radii_show, 0.0)\<close>, and the loop stores a radius in metres for each key.
\<close>

fun alert_t_radii_loop ::
  "real list \<Rightarrow> real \<Rightarrow> real \<Rightarrow> real \<Rightarrow> (real \<times> real) list \<Rightarrow> py_error + (real \<times> real) list"
  where
  "alert_t_radii_loop [] init_sa_to_anss_dt s_wave_velocity anss_depth alert_t_radii =
     Inr alert_t_radii"
| "alert_t_radii_loop (circle_radii_m # rest) init_sa_to_anss_dt s_wave_velocity anss_depth
       alert_t_radii =
     (if (init_sa_to_anss_dt + circle_radii_m) * s_wave_velocity > anss_depth then
        (case py_sqrt (((init_sa_to_anss_dt + circle_radii_m) * s_wave_velocity)\<^sup>2
                        - anss_depth\<^sup>2) of
           Inl e \<Rightarrow> Inl e
         | Inr r \<Rightarrow>
             alert_t_radii_loop rest init_sa_to_anss_dt s_wave_velocity anss_depth
               (dict_set circle_radii_m (r * 1000) alert_t_radii))
      else alert_t_radii_loop rest init_sa_to_anss_dt s_wave_velocity anss_depth
             (dict_set circle_radii_m 0 alert_t_radii))"

definition get_alert_circle_params ::
  "real \<Rightarrow> real \<Rightarrow> real \<Rightarrow> real \<Rightarrow> py_error + (real \<times> real) list" where
  "get_alert_circle_params init_sa_mag init_sa_to_anss_dt s_wave_velocity anss_depth =
     (let radii_show = (if init_sa_mag < 6 then [0, 10, 20] else [0, 10, 20, 30]);
          alert_t_radii = map (\<lambda>k. (k, 0)) radii_show
      in alert_t_radii_loop radii_show init_sa_to_anss_dt s_wave_velocity anss_depth
           alert_t_radii)"

text \<open>
  The unit test takes \<open>int(r)\<close> of each radius, which cuts the fraction off; the
  specification speaks of the nearest integer. Both readings of a radii dict:
\<close>

definition py_int_of_float :: "real \<Rightarrow> int" where
  "py_int_of_float r = (if 0 \<le> r then \<lfloor>r\<rfloor> else \<lceil>r\<rceil>)"

definition truncated_radii :: "(real \<times> real) list \<Rightarrow> int list" where
  "truncated_radii alert_t_radii = map (\<lambda>kv. py_int_of_float (snd kv)) alert_t_radii"

definition nearest_radii :: "(real \<times> real) list \<Rightarrow> int list" where
  "nearest_radii alert_t_radii = map (\<lambda>kv. round (snd kv)) alert_t_radii"

section \<open>ShakeAlertParser: the minimum MMI and the display contours\<close>

text \<open>
  The options of the \<open>THRESHOLDS\<close> section of the configuration file, which is not part
  of the sources: \<open>MagMapChange\<close>, \<open>MMISmall\<close> and \<open>MMIAlert\<close>. The module reads
  \<open>MMISmall\<close> and \<open>MMItoUse = MMIAlert\<close> once, when it is loaded.
\<close>

record thresholds =
  MagMapChange :: real
  MMISmall :: int
  MMIAlert :: int

text \<open>
  \<open>ParseJSONContent\<close>, "Determine map mmi label": the module-level \<open>MMItoUse\<close> is set to
  \<open>MMISmall\<close> when the ANSS magnitude is there and below \<open>MagMapChange\<close>, else when the
  initial ShakeAlert magnitude is below it, and is left as it was otherwise. The ANSS
  magnitude is \<open>None\<close> when the event has no preferred origin.
\<close>

definition decide_MMItoUse :: "thresholds \<Rightarrow> int \<Rightarrow> real option \<Rightarrow> real \<Rightarrow> int" where
  "decide_MMItoUse cfg MMItoUse ANSSmag initial_mag =
     (if (case ANSSmag of None \<Rightarrow> False | Some m \<Rightarrow> m < MagMapChange cfg) then MMISmall cfg
      else if initial_mag < MagMapChange cfg then MMISmall cfg
      else MMItoUse)"

text \<open>\<open>min\<close> of a list raises ValueError when the list is empty.\<close>

definition py_min :: "int list \<Rightarrow> py_error + int" where
  "py_min xs = (case xs of [] \<Rightarrow> Inl ValueError | x # rest \<Rightarrow> Inr (fold min rest x))"

text \<open>
  \<open>latlon_list_to_numeric\<close> and \<open>latlon_string_to_list\<close> run the same loop, the first
  over a list of tokens and the second over \<open>latlon_list_string.split()\<close>: a token must
  split at commas into exactly two parts (\<open>la, lo = k.split(",")\<close>, ValueError otherwise),
  and the pair of floats is appended, as \<open>[float(lo), float(la)]\<close> when \<open>rev\<close> holds and
  as \<open>[float(la), float(lo)]\<close> when not. \<open>float\<close> is the parameter \<open>py_float\<close> again.
\<close>

definition float_pair ::
  "(string \<Rightarrow> real option) \<Rightarrow> string \<Rightarrow> string \<Rightarrow> py_error + (real \<times> real)" where
  "float_pair py_float a b =
     (case py_float a of
        None \<Rightarrow> Inl ValueError
      | Some x \<Rightarrow> (case py_float b of None \<Rightarrow> Inl ValueError | Some y \<Rightarrow> Inr (x, y)))"

fun latlon_loop ::
  "(string \<Rightarrow> real option) \<Rightarrow> string list \<Rightarrow> bool \<Rightarrow> py_error + (real \<times> real) list" where
  "latlon_loop py_float [] rev_arg = Inr []"
| "latlon_loop py_float (k # rest) rev_arg =
     (case py_split CHR '','' k of
        [la, lo] \<Rightarrow>
          (case (if rev_arg then float_pair py_float lo la else float_pair py_float la lo) of
             Inl e \<Rightarrow> Inl e
           | Inr kk \<Rightarrow>
               (case latlon_loop py_float rest rev_arg of
                  Inl e \<Rightarrow> Inl e
                | Inr foo \<Rightarrow> Inr (kk # foo)))
      | _ \<Rightarrow> Inl ValueError)"

definition latlon_list_to_numeric ::
  "(string \<Rightarrow> real option) \<Rightarrow> string list \<Rightarrow> bool \<Rightarrow> py_error + (real \<times> real) list" where
  "latlon_list_to_numeric py_float latlon_list rev_arg = latlon_loop py_float latlon_list rev_arg"

definition latlon_string_to_list ::
  "(string \<Rightarrow> real option) \<Rightarrow> string \<Rightarrow> bool \<Rightarrow> py_error + (real \<times> real) list" where
  "latlon_string_to_list py_float latlon_list_string rev_arg =
     latlon_loop py_float (py_split_ws latlon_list_string) rev_arg"

text \<open>
  \<open>parse_gm_contours\<close>: for each contour the MMI is \<open>int(str(mmi)[:1])\<close>, the polygon
  string is stripped and split at single blanks, each token becomes
  \<open>Coord(*coord_tok.split(','))\<close>, which raises TypeError unless the token has exactly two
  parts, and \<open>GMContour\<close> is built from these, which raises ValueError on a polygon that is
  not closed. The coordinates stay strings.
\<close>

fun parsed_poly_loop :: "string list \<Rightarrow> py_error + string Coord list" where
  "parsed_poly_loop [] = Inr []"
| "parsed_poly_loop (coord_tok # rest) =
     (case py_split CHR '','' coord_tok of
        [a, b] \<Rightarrow>
          (case parsed_poly_loop rest of
             Inl e \<Rightarrow> Inl e
           | Inr parsed_poly \<Rightarrow> Inr (\<lparr>lat = a, lon = b\<rparr> # parsed_poly))
      | _ \<Rightarrow> Inl TypeError)"

fun parse_gm_contours :: "contour_json list \<Rightarrow> py_error + string GMContour list" where
  "parse_gm_contours [] = Inr []"
| "parse_gm_contours (contour_json_d # rest) =
     (case py_int_1 (take 1 (py_str (json_mmi contour_json_d))) of
        Inl e \<Rightarrow> Inl e
      | Inr mmi_v \<Rightarrow>
          (case parsed_poly_loop
                  (py_split CHR '' '' (py_strip (json_polygon contour_json_d))) of
             Inl e \<Rightarrow> Inl e
           | Inr parsed_poly \<Rightarrow>
               (case GMContour_init mmi_v parsed_poly (Some (json_pga contour_json_d))
                       (Some (json_pgv contour_json_d)) of
                  Inl e \<Rightarrow> Inl e
                | Inr contour \<Rightarrow>
                    (case parse_gm_contours rest of
                       Inl e \<Rightarrow> Inl e
                     | Inr contours \<Rightarrow> Inr (contour # contours)))))"

text \<open>
  The initial-alert block: \<open>mmi_initial\<close> maps each MMI of \<open>MMIlist\<close> to its polygon
  string (a later entry of the same MMI replaces an earlier one), \<open>MMItoShow\<close> is
  \<open>MMItoUse\<close> when that is a key and the least key otherwise, and the one display contour
  is \<open>mmi_initial[MMItoShow]\<close>, converted to floats twice (longitude first for the numeric
  list, latitude first for the polygon list). \<open>parse_gm_contours\<close> runs last. The record
  holds the four values the block stores in \<open>JSONValues\<close>, the first under the key
  \<open>MMIlist\<close>.
\<close>

record initial_values =
  initial_MMIlist :: "(int \<times> string) list"
  initial_polygonList :: "(int \<times> (real \<times> real) list) list"
  initial_polygonNumericList :: "(real \<times> real) list"
  initial_contours :: "string GMContour list"

definition initial_block ::
  "(string \<Rightarrow> real option) \<Rightarrow> int \<Rightarrow> contour_json list \<Rightarrow> py_error + initial_values" where
  "initial_block py_float MMItoUse initialGMcontours =
     py_bind (Get_polygons initialGMcontours) (\<lambda>MMIlist_v.
       let mmi_initial = fold (\<lambda>m d. dict_set (fst m) (snd m) d) MMIlist_v [];
           mmis = dict_keys mmi_initial
       in
       py_bind (if MMItoUse \<in> set mmis then Inr MMItoUse else py_min mmis) (\<lambda>MMItoShow.
       py_bind (dict_get mmi_initial MMItoShow) (\<lambda>polygon_string.
       py_bind (latlon_list_to_numeric py_float (py_split_ws polygon_string) True)
         (\<lambda>numeric_list.
       py_bind (latlon_string_to_list py_float polygon_string False) (\<lambda>latlon_list.
       py_bind (parse_gm_contours initialGMcontours) (\<lambda>contours.
         Inr \<lparr>initial_MMIlist = MMIlist_v,
              initial_polygonList = [(MMItoShow, latlon_list)],
              initial_polygonNumericList = numeric_list,
              initial_contours = contours\<rparr>))))))"

text \<open>
  The final-alert and the peak-magnitude blocks run the same loop: with
  \<open>min_mmi = MMItoUse\<close>, every entry of the sorted list with \<open>m[0] >= min_mmi\<close> is
  converted to floats twice; \<open>[use_this_MMI, [latlon_list]]\<close> is appended to the polygon
  list and the numeric list of the entry to the numeric polygon list.
  \<open>parse_gm_contours\<close> runs after the loop. The record holds the four values a block
  stores, under the keys \<open>fMMIlist\<close>, \<open>polygonList\<close>, \<open>polygonNumericList\<close> and
  \<open>final_contours\<close> for the final alert and under \<open>pMMIlist\<close>, \<open>peak_mag_polygonList\<close>,
  \<open>peak_mag_polygonNumericList\<close> and \<open>peak_contours\<close> for the peak magnitude.
\<close>

fun polygonList_loop ::
  "(string \<Rightarrow> real option) \<Rightarrow> int \<Rightarrow> (int \<times> string) list \<Rightarrow>
   (int \<times> (real \<times> real) list list) list \<Rightarrow> (real \<times> real) list list \<Rightarrow>
   py_error + ((int \<times> (real \<times> real) list list) list \<times> (real \<times> real) list list)" where
  "polygonList_loop py_float min_mmi [] final_polygonList final_polygonNumericList =
     Inr (final_polygonList, final_polygonNumericList)"
| "polygonList_loop py_float min_mmi (m # rest) final_polygonList final_polygonNumericList =
     (if fst m \<ge> min_mmi then
        (case latlon_string_to_list py_float (snd m) False of
           Inl e \<Rightarrow> Inl e
         | Inr latlon_list \<Rightarrow>
             (case latlon_list_to_numeric py_float (py_split_ws (snd m)) True of
                Inl e \<Rightarrow> Inl e
              | Inr tmp_lonlat_list \<Rightarrow>
                  polygonList_loop py_float min_mmi rest
                    (final_polygonList @ [(fst m, [latlon_list])])
                    (final_polygonNumericList @ [tmp_lonlat_list])))
      else polygonList_loop py_float min_mmi rest final_polygonList final_polygonNumericList)"

record snapshot_values =
  fMMIlist :: "(int \<times> string) list"
  polygonList :: "(int \<times> (real \<times> real) list list) list"
  polygonNumericList :: "(real \<times> real) list list"
  final_contours :: "string GMContour list"

definition snapshot_block ::
  "(string \<Rightarrow> real option) \<Rightarrow> int \<Rightarrow> contour_json list \<Rightarrow> py_error + snapshot_values" where
  "snapshot_block py_float MMItoUse gm_contours =
     py_bind (Get_polygons gm_contours) (\<lambda>fMMIlist_v.
     py_bind (polygonList_loop py_float MMItoUse fMMIlist_v [] []) (\<lambda>lists.
     py_bind (parse_gm_contours gm_contours) (\<lambda>contours.
       Inr \<lparr>fMMIlist = fMMIlist_v, polygonList = fst lists, polygonNumericList = snd lists,
            final_contours = contours\<rparr>)))"

text \<open>
  The part of an event record these blocks read: the magnitudes of the preferred (ANSS)
  origin and of the initial, peak-magnitude and final messages, and the
  \<open>ground_motion_contours\<close> of the three messages (\<open>None\<close> when the key is absent).
\<close>

record event_json =
  ANSSmag :: "real option"
  initial_mag :: real
  peak_mag :: real
  mag :: real
  initial_gm_contours :: "contour_json list option"
  final_gm_contours :: "contour_json list option"
  peak_mag_gm_contours :: "contour_json list option"

record contour_values =
  MMItoUse_now :: int
  initial_part :: "initial_values option"
  final_part :: "snapshot_values option"
  peak_mag_part :: "snapshot_values option"

text \<open>
  \<open>ParseJSONContent\<close> from "Determine map mmi label" to its end: the threshold is decided
  once, then the initial, the final and the peak-magnitude block run in this order, each
  skipped when its message has no contours. The argument after the configuration is the
  value of the global \<open>MMItoUse\<close> before the call; the result holds its value after the
  call and what each block stored.
\<close>

definition opt_block :: "('a \<Rightarrow> py_error + 'b) \<Rightarrow> 'a option \<Rightarrow> py_error + 'b option" where
  "opt_block f x = (case x of None \<Rightarrow> Inr None | Some a \<Rightarrow> map_sum id Some (f a))"

definition ParseJSONContent_contours ::
  "(string \<Rightarrow> real option) \<Rightarrow> thresholds \<Rightarrow> int \<Rightarrow> event_json \<Rightarrow> py_error + contour_values"
  where
  "ParseJSONContent_contours py_float cfg MMItoUse_before ev =
     (let MMItoUse = decide_MMItoUse cfg MMItoUse_before (ANSSmag ev) (initial_mag ev) in
      py_bind (opt_block (initial_block py_float MMItoUse) (initial_gm_contours ev)) (\<lambda>ini.
      py_bind (opt_block (snapshot_block py_float MMItoUse) (final_gm_contours ev)) (\<lambda>fin.
      py_bind (opt_block (snapshot_block py_float MMItoUse) (peak_mag_gm_contours ev))
        (\<lambda>peak.
        Inr \<lparr>MMItoUse_now = MMItoUse, initial_part = ini, final_part = fin,
             peak_mag_part = peak\<rparr>))))"

text \<open>
  The rule as the specification words it, for one snapshot with its own magnitude: the
  small-event MMI below the boundary, the large-event MMI at or above it.
\<close>

definition two_tier_min_mmi :: "thresholds \<Rightarrow> real \<Rightarrow> int" where
  "two_tier_min_mmi cfg magnitude =
     (if magnitude < MagMapChange cfg then MMISmall cfg else MMIAlert cfg)"

section \<open>PyCities\<close>

text \<open>
  The functions of the \<open>math\<close> module that \<open>PyCities\<close> uses, over the reals.
  \<open>math.atan2(y, x)\<close> is the angle of the point \<open>(x, y)\<close> in \<open>(-pi, pi]\<close>, with
  \<open>atan2(0, 0) = 0\<close>; \<open>a % b\<close> on floats with a positive \<open>b\<close> lies in \<open>[0, b)\<close>.
\<close>

definition radians :: "real \<Rightarrow> real" where
  "radians d = d * pi / 180"

definition degrees :: "real \<Rightarrow> real" where
  "degrees r = r * 180 / pi"

definition py_atan2 :: "real \<Rightarrow> real \<Rightarrow> real" where
  "py_atan2 y x =
     (if x > 0 then arctan (y / x)
      else if x < 0 then (if y \<ge> 0 then arctan (y / x) + pi else arctan (y / x) - pi)
      else if y > 0 then pi / 2
      else if y < 0 then - (pi / 2)
      else 0)"

definition py_float_mod :: "real \<Rightarrow> real \<Rightarrow> real" where
  "py_float_mod a b = a - b * of_int \<lfloor>a / b\<rfloor>"

text \<open>\<open>xs[i]\<close> on a list: a negative index counts from the end, IndexError out of range.\<close>

definition py_getitem :: "'a list \<Rightarrow> int \<Rightarrow> py_error + 'a" where
  "py_getitem xs i =
     (if 0 \<le> i then (if nat i < length xs then Inr (xs ! nat i) else Inl IndexError)
      else if nat (- i) \<le> length xs then Inr (xs ! (length xs - nat (- i)))
      else Inl IndexError)"

text \<open>\<open>PyCities.distanceBetween\<close>: the haversine distance in kilometres.\<close>

definition distanceBetween :: "real \<Rightarrow> real \<Rightarrow> real \<Rightarrow> real \<Rightarrow> py_error + real" where
  "distanceBetween lat1_deg lon1_deg lat2_deg lon2_deg =
     (let EARTH_RADIUS = 6371009 / 1000;
          lat1 = radians lat1_deg;
          lat2 = radians lat2_deg;
          lon1 = radians lon1_deg;
          lon2 = radians lon2_deg;
          delta_lat = lat1 - lat2;
          delta_lon = lon1 - lon2;
          a = (sin (delta_lat / 2))\<^sup>2 + cos lat1 * cos lat2 * (sin (delta_lon / 2))\<^sup>2
      in case py_sqrt a of
           Inl e \<Rightarrow> Inl e
         | Inr sqrt_a \<Rightarrow>
             (case py_sqrt (1 - a) of
                Inl e \<Rightarrow> Inl e
              | Inr sqrt_1a \<Rightarrow> Inr (EARTH_RADIUS * (2 * py_atan2 sqrt_a sqrt_1a))))"

text \<open>
  \<open>PyCities.calculate_initial_compass_bearing\<close> (both arguments are tuples at its one
  call site, so the TypeError branch is not reached) and \<open>PyCities.get_compass_direction\<close>.
\<close>

definition calculate_initial_compass_bearing :: "real \<times> real \<Rightarrow> real \<times> real \<Rightarrow> real" where
  "calculate_initial_compass_bearing pointA pointB =
     (let lat1 = radians (fst pointA);
          lat2 = radians (fst pointB);
          diffLong = radians (snd pointB - snd pointA);
          x = sin diffLong * cos lat2;
          y = cos lat1 * sin lat2 - (sin lat1 * cos lat2 * cos diffLong);
          initial_bearing = degrees (py_atan2 x y)
      in py_float_mod (initial_bearing + 360) 360)"

definition get_compass_direction :: "real \<Rightarrow> py_error + string" where
  "get_compass_direction compass_bearing_degrees =
     (let bearings = [''NE'', ''E'', ''SE'', ''S'', ''SW'', ''W'', ''NW'', ''N''];
          index0 = compass_bearing_degrees - 45 / 2;
          index1 = (if index0 < 0 then index0 + 360 else index0)
      in py_getitem bearings (py_int_of_float (index1 / 45)))"

text \<open>
  The city catalog \<open>self.cities\<close>: city name to latitude, longitude, population and
  category. The value stored for each selected city in the result of \<open>getCityList\<close> has
  the keys \<open>lat\<close>, \<open>lon\<close>, \<open>category\<close>, \<open>distance\<close>, \<open>time\<close> and \<open>bearing\<close>.
\<close>

record city_values =
  city_lat :: real
  city_lon :: real
  population :: int
  category :: string

record city_result =
  res_lat :: real
  res_lon :: real
  res_category :: string
  res_distance :: real
  res_time :: real
  res_bearing :: string

text \<open>
  The first loop of \<open>getCityList\<close>. The state is the pair of lists \<open>nearest_cities\<close> and
  \<open>distances\<close>, one slot per requested category, \<open>None\<close> and \<open>1.0e6\<close> at the start.
  A city is excluded from a slot when an earlier slot of the same category holds it.
\<close>

definition exclude_city :: "string list \<Rightarrow> string option list \<Rightarrow> nat \<Rightarrow> string \<Rightarrow> bool" where
  "exclude_city categories nearest_cities index city =
     list_ex (\<lambda>i. categories ! i = categories ! index \<and> nearest_cities ! i = Some city)
       [0..<index]"

fun slots_loop ::
  "string list \<Rightarrow> string \<Rightarrow> city_values \<Rightarrow> real \<Rightarrow> real \<Rightarrow> nat list \<Rightarrow>
   string option list \<times> real list \<Rightarrow> py_error + (string option list \<times> real list)" where
  "slots_loop categories city vals lat0 lon0 [] st = Inr st"
| "slots_loop categories city vals lat0 lon0 (index # rest) st =
     (if categories ! index = category vals then
        (case distanceBetween lat0 lon0 (city_lat vals) (city_lon vals) of
           Inl e \<Rightarrow> Inl e
         | Inr dist_to_city \<Rightarrow>
             if dist_to_city < snd st ! index \<and> \<not> exclude_city categories (fst st) index city
             then slots_loop categories city vals lat0 lon0 rest
                    ((fst st)[index := Some city], (snd st)[index := dist_to_city])
             else slots_loop categories city vals lat0 lon0 rest st)
      else slots_loop categories city vals lat0 lon0 rest st)"

fun cities_loop ::
  "string list \<Rightarrow> real \<Rightarrow> real \<Rightarrow> (string \<times> city_values) list \<Rightarrow>
   string option list \<times> real list \<Rightarrow> py_error + (string option list \<times> real list)" where
  "cities_loop categories lat0 lon0 [] st = Inr st"
| "cities_loop categories lat0 lon0 (item # rest) st =
     (case slots_loop categories (fst item) (snd item) lat0 lon0 [0..<length categories] st of
        Inl e \<Rightarrow> Inl e
      | Inr st' \<Rightarrow> cities_loop categories lat0 lon0 rest st')"

definition nearest_cities_scan ::
  "(string \<times> city_values) list \<Rightarrow> real \<Rightarrow> real \<Rightarrow> string list \<Rightarrow>
   py_error + (string option list \<times> real list)" where
  "nearest_cities_scan cities lat0 lon0 categories =
     cities_loop categories lat0 lon0 cities
       (replicate (length categories) None, replicate (length categories) 1000000)"

text \<open>
  The second loop of \<open>getCityList\<close>, over \<open>zip(categories, nearest_cities, distances)\<close>:
  \<open>self.cities[nearest_city]\<close> raises KeyError for a slot that is still \<open>None\<close>.
\<close>

fun result_loop ::
  "(string \<times> city_values) list \<Rightarrow> real \<Rightarrow> real \<Rightarrow> real \<Rightarrow> real \<Rightarrow>
   (string \<times> string option \<times> real) list \<Rightarrow> (string \<times> city_result) list \<Rightarrow>
   py_error + (string \<times> city_result) list" where
  "result_loop cities lat0 lon0 depth time_delta [] result = Inr result"
| "result_loop cities lat0 lon0 depth time_delta (slot # rest) result =
     (let slot_category = fst slot; nearest_city = fst (snd slot); dist = snd (snd slot);
          slant_dist = sqrt (depth\<^sup>2 + dist\<^sup>2);
          s_tt = slant_dist / (355 / 100);
          city_time_delta = max (s_tt - time_delta) 0
      in case nearest_city of
           None \<Rightarrow> Inl KeyError
         | Some name \<Rightarrow>
             (case dict_get cities name of
                Inl e \<Rightarrow> Inl e
              | Inr vals \<Rightarrow>
                  (case get_compass_direction
                          (calculate_initial_compass_bearing (city_lat vals, city_lon vals)
                             (lat0, lon0)) of
                     Inl e \<Rightarrow> Inl e
                   | Inr compass_bearing \<Rightarrow>
                       result_loop cities lat0 lon0 depth time_delta rest
                         (dict_set name
                            \<lparr>res_lat = city_lat vals, res_lon = city_lon vals,
                             res_category = slot_category, res_distance = dist,
                             res_time = city_time_delta, res_bearing = compass_bearing\<rparr>
                            result))))"

definition getCityList ::
  "(string \<times> city_values) list \<Rightarrow> real \<Rightarrow> real \<Rightarrow> real \<Rightarrow> string list \<Rightarrow> real \<Rightarrow>
   py_error + (string \<times> city_result) list" where
  "getCityList cities lat0 lon0 depth categories time_delta =
     (case nearest_cities_scan cities lat0 lon0 categories of
        Inl e \<Rightarrow> Inl e
      | Inr st \<Rightarrow>
          result_loop cities lat0 lon0 depth time_delta
            (zip categories (zip (fst st) (snd st))) [])"

text \<open>
  \<open>finalizeShakeAlertValues\<close>, "We get the C,B,B,A list" to the second call of
  \<open>getCityList\<close>: the first two keys of the result dict are compared by their
  \<open>distance\<close>, and the list is asked for again with B,B,B,A when the first is farther.
\<close>

definition closest_cities_selection ::
  "(string \<times> city_values) list \<Rightarrow> real \<Rightarrow> real \<Rightarrow> real \<Rightarrow> real \<Rightarrow>
   py_error + (string \<times> city_result) list" where
  "closest_cities_selection cities lat0 lon0 depth delta =
     (case getCityList cities lat0 lon0 depth [''C'', ''B'', ''B'', ''A''] delta of
        Inl e \<Rightarrow> Inl e
      | Inr closest_cities \<Rightarrow>
          (case py_getitem (dict_keys closest_cities) 0 of
             Inl e \<Rightarrow> Inl e
           | Inr c_city \<Rightarrow>
               (case py_getitem (dict_keys closest_cities) 1 of
                  Inl e \<Rightarrow> Inl e
                | Inr b_city \<Rightarrow>
                    (case dict_get closest_cities c_city of
                       Inl e \<Rightarrow> Inl e
                     | Inr c_info \<Rightarrow>
                         (case dict_get closest_cities b_city of
                            Inl e \<Rightarrow> Inl e
                          | Inr b_info \<Rightarrow>
                              if res_distance c_info > res_distance b_info
                              then getCityList cities lat0 lon0 depth
                                     [''B'', ''B'', ''B'', ''A''] delta
                              else Inr closest_cities)))))"

text \<open>
  What the first loop keeps true of its state: both lists have one entry per requested
  category, and a slot that holds a city holds a catalog entry of the slot's category
  together with its distance from the reference point.
\<close>

definition slots_inv ::
  "(string \<times> city_values) list \<Rightarrow> real \<Rightarrow> real \<Rightarrow> string list \<Rightarrow>
   string option list \<times> real list \<Rightarrow> bool" where
  "slots_inv cities la lo categories st \<longleftrightarrow>
     length (fst st) = length categories \<and> length (snd st) = length categories \<and>
     (\<forall>k < length categories. \<forall>c. fst st ! k = Some c \<longrightarrow>
        (\<exists>v. (c, v) \<in> set cities \<and> category v = categories ! k \<and>
             distanceBetween la lo (city_lat v) (city_lon v) = Inr (snd st ! k)))"

section \<open>EQCalculations: time deltas\<close>



























text \<open>
  The three recognized encodings in the words of the specification: a string is in one of
  them when \<open>strptime\<close> accepts it with one of the three formats, each of which has
  fractional seconds.
\<close>

definition returns :: "py_error + 'a \<Rightarrow> bool" where
  "returns r = (case r of Inl e \<Rightarrow> False | Inr v \<Rightarrow> True)"


section \<open>PDFCreate: GMContourFilter\<close>

text \<open>
  The filter that \<open>PDFCreate\<close> applies to the contours of each snapshot, with the
  snapshot's own magnitude as \<open>event_mag\<close>. Its limits are read from the configuration
  as floats.
\<close>

record GMContourFilter =
  mag_threshold :: real
  min_mmi_small_event :: real
  min_mmi_large_event :: real

definition meets_contour_criteria :: "GMContourFilter \<Rightarrow> 'a GMContour \<Rightarrow> real \<Rightarrow> bool" where
  "meets_contour_criteria self gm_contour event_mag =
     (if event_mag \<ge> mag_threshold self
      then real_of_int (mmi gm_contour) \<ge> min_mmi_large_event self
      else real_of_int (mmi gm_contour) \<ge> min_mmi_small_event self)"

fun filter_gm_contours_loop ::
  "GMContourFilter \<Rightarrow> 'a GMContour list \<Rightarrow> real \<Rightarrow> 'a GMContour list \<Rightarrow> 'a GMContour list"
  where
  "filter_gm_contours_loop self [] event_mag temp = temp"
| "filter_gm_contours_loop self (contour # rest) event_mag temp =
     (if meets_contour_criteria self contour event_mag
      then filter_gm_contours_loop self rest event_mag (temp @ [contour])
      else filter_gm_contours_loop self rest event_mag temp)"

definition filter_gm_contours ::
  "GMContourFilter \<Rightarrow> 'a GMContour list \<Rightarrow> real \<Rightarrow> 'a GMContour list" where
  "filter_gm_contours self gm_contours event_mag =
     filter_gm_contours_loop self gm_contours event_mag []"

section \<open>Properties\<close>

subsection \<open>Get_polygons\<close>

lemma str_nat_not_Nil: "str_nat n \<noteq> []"
  by (induction n rule: str_nat.induct) (subst str_nat.simps, simp)

lemma digit_char_is_digit: "d < 10 \<Longrightarrow> is_digit (digit_char d)"
proof -
  assume "d < 10"
  then have "d \<in> {0, 1, 2, 3, 4, 5, 6, 7, 8, 9}" by auto
  then show ?thesis
    unfolding is_digit_def digit_char_def by (elim insertE emptyE) simp_all
qed

lemma hd_str_nat_digit: "is_digit (hd (str_nat n))"
proof (induction n rule: str_nat.induct)
  case (1 n)
  show ?case
  proof (cases "n < 10")
    case True
    then show ?thesis by (subst str_nat.simps) (simp add: digit_char_is_digit)
  next
    case False
    with 1 show ?thesis by (subst str_nat.simps) (simp add: str_nat_not_Nil)
  qed
qed

lemma py_int_1_str_nonneg:
  assumes "0 \<le> i"
  shows "\<exists>v. py_int_1 (take 1 (py_str i)) = Inr v"
proof -
  obtain c cs where s: "str_nat (nat i) = c # cs"
    using str_nat_not_Nil by (cases "str_nat (nat i)") auto
  with hd_str_nat_digit [of "nat i"] have "is_digit c" by simp
  with s assms show ?thesis by (simp add: py_int_1_def py_str_def)
qed

lemma py_int_1_str_neg:
  assumes "i < 0"
  shows "py_int_1 (take 1 (py_str i)) = Inl ValueError"
  using assms by (simp add: py_int_1_def py_str_def is_digit_def)

lemma Get_polygons_loop_total:
  "\<forall>c \<in> set gm. 0 \<le> json_mmi c \<Longrightarrow> \<exists>ys. Get_polygons_loop gm acc = Inr ys"
proof (induction gm arbitrary: acc)
  case Nil
  then show ?case by simp
next
  case (Cons c gm)
  then obtain v where "py_int_1 (take 1 (py_str (json_mmi c))) = Inr v"
    using py_int_1_str_nonneg [of "json_mmi c"] by auto
  with Cons show ?case by simp
qed

lemma sorted_wrt_ge_neg:
  "sorted_wrt (\<lambda>a b. b \<le> a) (map fst ys) = sorted (map (\<lambda>x. - fst x) (ys :: (int \<times> string) list))"
  by (induction ys) auto

lemma Get_polygons_first_digits_descending:
  "Get_polygons gm = Inr ys \<Longrightarrow> sorted_wrt (\<lambda>a b. b \<le> a) (map fst ys)"
  by (auto simp: Get_polygons_def sorted_wrt_ge_neg split: sum.splits)

text \<open>
  For MMI values of one digit the first digit is the MMI: \<open>Get_polygons\<close> returns the
  pairs of the contours in the stable order of descending MMI.
\<close>

lemma single_digit_label:
  assumes "0 \<le> i" "i \<le> 9"
  shows "py_int_1 (take 1 (py_str i)) = Inr i"
proof -
  from assms have "i \<in> {0, 1, 2, 3, 4, 5, 6, 7, 8, 9}" by simp presburger
  then show ?thesis
    by (elim insertE emptyE)
      (simp_all add: py_int_1_def py_str_def str_nat.simps digit_char_def is_digit_def
        digit_val_def)
qed

lemma Get_polygons_loop_single_digit:
  "\<forall>c \<in> set gm. 0 \<le> json_mmi c \<and> json_mmi c \<le> 9 \<Longrightarrow>
     Get_polygons_loop gm acc = Inr (acc @ map (\<lambda>c. (json_mmi c, json_polygon c)) gm)"
proof (induction gm arbitrary: acc)
  case Nil
  then show ?case by simp
next
  case (Cons c gm)
  from Cons.prems have "0 \<le> json_mmi c" "json_mmi c \<le> 9" by simp_all
  then have "py_int_1 (take 1 (py_str (json_mmi c))) = Inr (json_mmi c)"
    by (rule single_digit_label)
  with Cons show ?case by simp
qed

lemma insort_key_map:
  "insort_key f (g c) (map g xs) = map g (insort_key (\<lambda>x. f (g x)) c xs)"
  by (induction xs) simp_all

lemma sort_key_map: "sort_key f (map g xs) = map g (sort_key (\<lambda>x. f (g x)) xs)"
  by (induction xs) (simp_all add: insort_key_map)

lemma Get_polygons_single_digit:
  assumes "\<forall>c \<in> set gm. 0 \<le> json_mmi c \<and> json_mmi c \<le> 9"
  shows "Get_polygons gm =
     Inr (map (\<lambda>c. (json_mmi c, json_polygon c)) (sort_key (\<lambda>c. - json_mmi c) gm))"
  using assms
  by (simp add: Get_polygons_def Get_polygons_loop_single_digit sort_key_map)

text \<open>
  C10. The order by MMI is lost as soon as an MMI has two digits, because only the first
  digit is kept (\<open>str(MMI)[:1]\<close>). For a contour of MMI 10 around the point (2, 2) inside
  a contour of MMI 2, \<open>Get_polygons\<close> returns the MMI-10 contour last, with level 1, and
  \<open>getIntensityLevel\<close> on the returned list gives level 2 for the point (2, 2), which
  lies inside the MMI-10 contour.
\<close>

theorem Get_polygons_MMI_10_last:
  "Get_polygons
     [\<lparr>json_mmi = 10, json_pga = 0, json_pgv = 0, json_polygon = ''1,1 1,3 3,3 3,1 1,1''\<rparr>,
      \<lparr>json_mmi = 2, json_pga = 0, json_pgv = 0, json_polygon = ''0,0 0,4 4,4 4,0 0,0''\<rparr>]
     = Inr [(2, ''0,0 0,4 4,4 4,0 0,0''), (1, ''1,1 1,3 3,3 3,1 1,1'')] \<and>
   getIntensityLevel (map_of [(''0'', 0), (''1'', 1), (''3'', 3), (''4'', 4)])
     [(2, ''0,0 0,4 4,4 4,0 0,0''), (1, ''1,1 1,3 3,3 3,1 1,1'')] 2 2 False = Inr (PyInt 2)"
  by (simp add: Get_polygons_def py_str_def str_nat.simps py_int_1_def is_digit_def
      digit_val_def digit_char_def parse_polygon_coords_def point_in_poly_def edge_step_def
      assign_xints_def toggle_inside_def py_truediv_def Let_def
      upt_rec [of _ "numeral _"] upt_rec [of _ "Suc _"])

subsection \<open>GMContour\<close>

lemma Coord_ne_iff: "Coord_ne a b \<longleftrightarrow> a \<noteq> (b :: 'a Coord)"
  by (cases a, cases b) (auto simp: Coord_ne_def)

text \<open>
  C5. For a vertex list with at least one coordinate, construction fails with the
  validation error (ValueError) if and only if the first coordinate differs from the
  last, and it succeeds, storing the MMI, the vertex list and the two amplitudes exactly
  as given, if and only if the first coordinate equals the last.
\<close>

theorem GMContour_init_closed_polygon:
  "poly \<noteq> [] \<Longrightarrow>
     (GMContour_init m poly a v = Inl ValueError \<longleftrightarrow> hd poly \<noteq> last poly) \<and>
     (GMContour_init m poly a v = Inr \<lparr>mmi = m, polygon = poly, pga = a, pgv = v\<rparr>
        \<longleftrightarrow> hd poly = last poly)"
  by (auto simp: GMContour_init_def Coord_ne_iff hd_conv_nth)

theorem GMContour_init_closed_polygon_witness:
  "[\<lparr>lat = ''40.4423'', lon = ''-123.9823''\<rparr>, \<lparr>lat = ''40.4284'', lon = ''-123.9383''\<rparr>,
    \<lparr>lat = ''40.3949'', lon = ''-123.9200''\<rparr>, \<lparr>lat = ''40.4423'', lon = ''-123.9823''\<rparr>] \<noteq> [] \<and>
   GMContour_init 6
     [\<lparr>lat = ''40.4423'', lon = ''-123.9823''\<rparr>, \<lparr>lat = ''40.4284'', lon = ''-123.9383''\<rparr>,
      \<lparr>lat = ''40.3949'', lon = ''-123.9200''\<rparr>, \<lparr>lat = ''40.4423'', lon = ''-123.9823''\<rparr>]
     (Some (829696 / 10000)) (Some (66981 / 10000))
   = Inr \<lparr>mmi = 6,
          polygon = [\<lparr>lat = ''40.4423'', lon = ''-123.9823''\<rparr>, \<lparr>lat = ''40.4284'', lon = ''-123.9383''\<rparr>,
                     \<lparr>lat = ''40.3949'', lon = ''-123.9200''\<rparr>, \<lparr>lat = ''40.4423'', lon = ''-123.9823''\<rparr>],
          pga = Some (829696 / 10000), pgv = Some (66981 / 10000)\<rparr>"
  using GMContour_init_closed_polygon
    [of "[\<lparr>lat = ''40.4423'', lon = ''-123.9823''\<rparr>, \<lparr>lat = ''40.4284'', lon = ''-123.9383''\<rparr>,
          \<lparr>lat = ''40.3949'', lon = ''-123.9200''\<rparr>, \<lparr>lat = ''40.4423'', lon = ''-123.9823''\<rparr>]"
        6 "Some (829696 / 10000)" "Some (66981 / 10000)"]
  by simp

subsection \<open>point_in_poly\<close>

lemma assign_xints_ok:
  "\<exists>s1. assign_xints y p2x p2y s = Inr s1 \<and> p1x s1 = p1x s \<and>
     (p1y s \<noteq> p2y \<longrightarrow> xints s1 \<noteq> None)"
  by (auto simp: assign_xints_def py_truediv_def)

lemma edge_step_ok: "\<exists>s'. edge_step x y s p2 = Inr s'"
proof -
  obtain s1 where s1: "assign_xints y (fst p2) (snd p2) s = Inr s1" "p1x s1 = p1x s"
    "p1y s \<noteq> snd p2 \<longrightarrow> xints s1 \<noteq> None"
    using assign_xints_ok by blast
  show ?thesis
  proof (cases "y > min (p1y s) (snd p2) \<and> y \<le> max (p1y s) (snd p2)")
    case True
    then have "p1y s \<noteq> snd p2" by auto
    with s1 obtain xi where "xints s1 = Some xi" by auto
    with s1 show ?thesis
      by (auto simp: edge_step_def toggle_inside_def Let_def)
  next
    case False
    then show ?thesis by (auto simp: edge_step_def Let_def)
  qed
qed

lemma pip_loop_ok: "\<exists>b. pip_loop x y ps s = Inr b"
proof (induction ps arbitrary: s)
  case Nil
  show ?case by simp
next
  case (Cons p ps)
  obtain s' where "edge_step x y s p = Inr s'" using edge_step_ok by blast
  with Cons show ?case by simp
qed

lemma point_in_poly_ok: "poly \<noteq> [] \<Longrightarrow> \<exists>b. point_in_poly x y poly = Inr b"
  using pip_loop_ok by (simp add: point_in_poly_def Let_def)

text \<open>
  C9. For every non-empty vertex list, closed or not, and every query point,
  \<open>point_in_poly\<close> returns a boolean: no division by zero (and no other exception) is
  raised. On an edge whose endpoints have the same y value the guarded block that holds
  the division is not entered: the step only moves on to the next vertex, leaving
  \<open>inside\<close> and \<open>xints\<close> as they were.
\<close>

theorem point_in_poly_no_division_by_zero:
  "(poly \<noteq> [] \<longrightarrow> (\<exists>b. point_in_poly x y poly = Inr b)) \<and>
   (p1y s = snd p2 \<longrightarrow> edge_step x y s p2 = Inr (s\<lparr>p1x := fst p2, p1y := snd p2\<rparr>))"
  using point_in_poly_ok [of poly x y] by (simp add: edge_step_def Let_def)

theorem point_in_poly_no_division_by_zero_witness:
  "[(0, 0), (4, 0), (4, 4), (0, 4 :: real)] \<noteq> [] \<and>
   point_in_poly 2 2 [(0, 0), (4, 0), (4, 4), (0, 4)] = Inr True \<and>
   p1y \<lparr>inside = False, p1x = 0, p1y = 0, xints = None\<rparr> = snd (4 :: real, 0 :: real) \<and>
   edge_step 2 2 \<lparr>inside = False, p1x = 0, p1y = 0, xints = None\<rparr> (4, 0)
     = Inr \<lparr>inside = False, p1x = 4, p1y = 0, xints = None\<rparr>"
  using point_in_poly_no_division_by_zero
    [of "[(0, 0), (4, 0), (4, 4), (0, 4)]" 2 2
        "\<lparr>inside = False, p1x = 0, p1y = 0, xints = None\<rparr>" "(4, 0)"]
  by (simp add: point_in_poly_def edge_step_def assign_xints_def toggle_inside_def
      py_truediv_def Let_def upt_rec [of _ "numeral _"] upt_rec [of _ "Suc _"])

subsection \<open>getIntensityLevel\<close>

lemma py_split_not_Nil: "py_split sep s \<noteq> []"
  by (induction s) (auto split: list.splits)

lemma polygon_of_tokens_not_Nil:
  "toks \<noteq> [] \<Longrightarrow> polygon_of_tokens pf toks = Inr poly \<Longrightarrow> poly \<noteq> []"
  by (cases toks) (auto split: list.splits option.splits sum.splits)

lemma parse_polygon_coords_not_Nil: "parse_polygon_coords pf pc = Inr poly \<Longrightarrow> poly \<noteq> []"
  unfolding parse_polygon_coords_def
  using polygon_of_tokens_not_Nil py_split_not_Nil by blast

lemma entry_contains_iff:
  "parse_polygon_coords pf pc = Inr poly \<Longrightarrow> point_in_poly lo la poly = Inr b \<Longrightarrow>
   entry_contains pf la lo (m, pc) = b"
  by (simp add: entry_contains_def)

text \<open>
  C6. Let the polygon strings of the entries ahead of the first entry that contains the
  point be well formed (the loop parses each polygon before testing it and stops at the
  first hit). Then \<open>getIntensityLevel\<close> returns the MMI of the first entry, in list order,
  whose polygon contains the point (as a roman numeral when that form is asked for), and
  when no polygon contains the point it returns the string "1", or "<II" in roman form.
\<close>

theorem getIntensityLevel_first_containing:
  assumes "\<forall>e \<in> set (takeWhile (\<lambda>e. \<not> entry_contains pf la lo e) MMIlist).
             \<exists>poly. parse_polygon_coords pf (snd e) = Inr poly"
  shows "getIntensityLevel pf MMIlist la lo rn =
     Inr (case find (entry_contains pf la lo) MMIlist of
            None \<Rightarrow> if rn then PyStr ''<II'' else PyStr ''1''
          | Some e \<Rightarrow> if rn then intensityRomanNumeral (fst e) else PyInt (fst e))"
  using assms
proof (induction MMIlist)
  case Nil
  then show ?case by simp
next
  case (Cons e es)
  obtain m pc where e: "e = (m, pc)" by (cases e)
  show ?case
  proof (cases "entry_contains pf la lo e")
    case True
    then obtain poly where
      "parse_polygon_coords pf pc = Inr poly" "point_in_poly lo la poly = Inr True"
      using e by (auto simp: entry_contains_def split: sum.splits)
    with True e show ?thesis by simp
  next
    case False
    with Cons.prems e obtain poly where p: "parse_polygon_coords pf pc = Inr poly" by auto
    then have "poly \<noteq> []" by (rule parse_polygon_coords_not_Nil)
    then obtain b where b: "point_in_poly lo la poly = Inr b"
      using point_in_poly_ok by blast
    with p False e have nb: "\<not> b" using entry_contains_iff by blast
    from Cons False have "getIntensityLevel pf es la lo rn =
       Inr (case find (entry_contains pf la lo) es of
              None \<Rightarrow> if rn then PyStr ''<II'' else PyStr ''1''
            | Some e \<Rightarrow> if rn then intensityRomanNumeral (fst e) else PyInt (fst e))"
      by simp
    with False e p b nb show ?thesis by simp
  qed
qed

theorem getIntensityLevel_first_containing_witness:
  "getIntensityLevel (map_of [(''0'', 0), (''1'', 1), (''3'', 3), (''4'', 4)])
        [(5, ''1,1 1,3 3,3 3,1 1,1''), (3, ''0,0 0,4 4,4 4,0 0,0'')] (7 / 2) (7 / 2) False
     = Inr (PyInt 3)"
proof -
  have parses: "\<forall>e \<in> set (takeWhile
        (\<lambda>e. \<not> entry_contains (map_of [(''0'', 0), (''1'', 1), (''3'', 3), (''4'', 4)]) (7 / 2) (7 / 2) e)
        [(5, ''1,1 1,3 3,3 3,1 1,1''), (3, ''0,0 0,4 4,4 4,0 0,0'')]).
      \<exists>poly. parse_polygon_coords (map_of [(''0'', 0), (''1'', 1), (''3'', 3), (''4'', 4)]) (snd e)
                = Inr poly"
    by (simp add: entry_contains_def parse_polygon_coords_def point_in_poly_def edge_step_def
        assign_xints_def toggle_inside_def py_truediv_def Let_def
        upt_rec [of _ "numeral _"] upt_rec [of _ "Suc _"])
  show ?thesis
    using getIntensityLevel_first_containing [OF parses, of False]
    by (simp add: entry_contains_def parse_polygon_coords_def point_in_poly_def edge_step_def
        assign_xints_def toggle_inside_def py_truediv_def Let_def
        upt_rec [of _ "numeral _"] upt_rec [of _ "Suc _"])
qed

subsection \<open>get_alert_circle_params\<close>

lemma sqrt_between:
  assumes "0 \<le> a" "a\<^sup>2 \<le> X" "X < b\<^sup>2" "0 \<le> b"
  shows "a \<le> sqrt X \<and> sqrt X < b"
  using assms by (simp add: real_le_rsqrt real_less_lsqrt)

lemma radius_0_bounds:
  "5436 \<le> sqrt (((7971 / 1000 + 0) * (355 / 100))\<^sup>2 - (2777 / 100)\<^sup>2) * 1000 \<and>
   sqrt (((7971 / 1000 + 0) * (355 / 100))\<^sup>2 - (2777 / 100)\<^sup>2) * 1000 < 5436 + 1 / 2"
  using sqrt_between [of "5436 / 1000"
      "((7971 / 1000 + 0) * (355 / 100))\<^sup>2 - (2777 / 100)\<^sup>2" "54365 / 10000"]
  by (simp add: power2_eq_square)

lemma radius_10_bounds:
  "57435 + 1 / 2 \<le> sqrt (((7971 / 1000 + 10) * (355 / 100))\<^sup>2 - (2777 / 100)\<^sup>2) * 1000 \<and>
   sqrt (((7971 / 1000 + 10) * (355 / 100))\<^sup>2 - (2777 / 100)\<^sup>2) * 1000 < 57436"
  using sqrt_between [of "574355 / 10000"
      "((7971 / 1000 + 10) * (355 / 100))\<^sup>2 - (2777 / 100)\<^sup>2" "57436 / 1000"]
  by (simp add: power2_eq_square)

lemma radius_20_bounds:
  "95334 + 1 / 2 \<le> sqrt (((7971 / 1000 + 20) * (355 / 100))\<^sup>2 - (2777 / 100)\<^sup>2) * 1000 \<and>
   sqrt (((7971 / 1000 + 20) * (355 / 100))\<^sup>2 - (2777 / 100)\<^sup>2) * 1000 < 95335"
  using sqrt_between [of "953345 / 10000"
      "((7971 / 1000 + 20) * (355 / 100))\<^sup>2 - (2777 / 100)\<^sup>2" "95335 / 1000"]
  by (simp add: power2_eq_square)

lemma alert_circle_test_event:
  "get_alert_circle_params (53 / 10) (7971 / 1000) (355 / 100) (2777 / 100) =
     Inr [(0, sqrt (((7971 / 1000 + 0) * (355 / 100))\<^sup>2 - (2777 / 100)\<^sup>2) * 1000),
          (10, sqrt (((7971 / 1000 + 10) * (355 / 100))\<^sup>2 - (2777 / 100)\<^sup>2) * 1000),
          (20, sqrt (((7971 / 1000 + 20) * (355 / 100))\<^sup>2 - (2777 / 100)\<^sup>2) * 1000)]"
  by (simp add: get_alert_circle_params_def py_sqrt_def power2_eq_square)

lemma floor_between: "real_of_int z \<le> r \<Longrightarrow> r < real_of_int z + 1 \<Longrightarrow> \<lfloor>r\<rfloor> = z"
  by linarith

lemma round_between: "real_of_int z - 1 / 2 \<le> r \<Longrightarrow> r < real_of_int z + 1 / 2 \<Longrightarrow> round r = z"
  unfolding round_def by linarith

lemma alert_circle_test_event_truncated:
  "map_sum id truncated_radii
     (get_alert_circle_params (53 / 10) (7971 / 1000) (355 / 100) (2777 / 100))
   = Inr [5436, 57435, 95334]"
proof -
  have "\<lfloor>sqrt (((7971 / 1000 + 0) * (355 / 100))\<^sup>2 - (2777 / 100)\<^sup>2) * 1000\<rfloor> = 5436"
    using radius_0_bounds by (intro floor_between) simp_all
  moreover
  have "\<lfloor>sqrt (((7971 / 1000 + 10) * (355 / 100))\<^sup>2 - (2777 / 100)\<^sup>2) * 1000\<rfloor> = 57435"
    using radius_10_bounds by (intro floor_between) simp_all
  moreover
  have "\<lfloor>sqrt (((7971 / 1000 + 20) * (355 / 100))\<^sup>2 - (2777 / 100)\<^sup>2) * 1000\<rfloor> = 95334"
    using radius_20_bounds by (intro floor_between) simp_all
  ultimately show ?thesis
    unfolding alert_circle_test_event by (simp add: truncated_radii_def py_int_of_float_def)
qed

lemma alert_circle_test_event_nearest:
  "map_sum id nearest_radii
     (get_alert_circle_params (53 / 10) (7971 / 1000) (355 / 100) (2777 / 100))
   = Inr [5436, 57436, 95335]"
proof -
  have "round (sqrt (((7971 / 1000 + 0) * (355 / 100))\<^sup>2 - (2777 / 100)\<^sup>2) * 1000) = 5436"
    using radius_0_bounds by (intro round_between) simp_all
  moreover
  have "round (sqrt (((7971 / 1000 + 10) * (355 / 100))\<^sup>2 - (2777 / 100)\<^sup>2) * 1000) = 57436"
    using radius_10_bounds by (intro round_between) simp_all
  moreover
  have "round (sqrt (((7971 / 1000 + 20) * (355 / 100))\<^sup>2 - (2777 / 100)\<^sup>2) * 1000) = 95335"
    using radius_20_bounds by (intro round_between) simp_all
  ultimately show ?thesis
    unfolding alert_circle_test_event by (simp add: nearest_radii_def)
qed

lemma alert_circle_keys_small:
  "M < 6 \<Longrightarrow> get_alert_circle_params M dt v depth = Inr d \<Longrightarrow> dict_keys d = [0, 10, 20]"
  by (auto simp: get_alert_circle_params_def dict_keys_def split: if_splits sum.splits)

lemma py_sqrt_ok: "0 \<le> depth \<Longrightarrow> depth < a \<Longrightarrow> py_sqrt (a\<^sup>2 - depth\<^sup>2) = Inr (sqrt (a\<^sup>2 - depth\<^sup>2))"
proof -
  assume "0 \<le> depth" "depth < a"
  then have "depth\<^sup>2 \<le> a\<^sup>2" by (intro power_mono) simp_all
  then show ?thesis by (simp add: py_sqrt_def)
qed

lemma alert_t_radii_loop_ok:
  "0 \<le> depth \<Longrightarrow> \<exists>d'. alert_t_radii_loop ks dt v depth d = Inr d'"
  by (induction ks arbitrary: d) (simp_all add: py_sqrt_ok)

lemma get_alert_circle_params_ok:
  "0 \<le> depth \<Longrightarrow> \<exists>d. get_alert_circle_params M dt v depth = Inr d"
  unfolding get_alert_circle_params_def Let_def by (rule alert_t_radii_loop_ok)

text \<open>
  C8 (amended). For an initial-alert magnitude below 6.0 the returned dict has exactly
  the keys 0.0, 10.0 and 20.0, and a dict is returned whenever the depth is not negative.
  For magnitude 5.3, time delta 7.971 s, velocity 3.55 km/s and depth 27.77 km the radii,
  cut to whole metres as the unit test does with \<open>int(r)\<close>, are 5436, 57435 and 95334.
\<close>

theorem get_alert_circle_params_small_event:
  "(M < 6 \<longrightarrow>
      (\<forall>d. get_alert_circle_params M dt v depth = Inr d \<longrightarrow> dict_keys d = [0, 10, 20]) \<and>
      (0 \<le> depth \<longrightarrow> (\<exists>d. get_alert_circle_params M dt v depth = Inr d))) \<and>
   map_sum id truncated_radii
     (get_alert_circle_params (53 / 10) (7971 / 1000) (355 / 100) (2777 / 100))
   = Inr [5436, 57435, 95334]"
  using alert_circle_keys_small [of M dt v depth] get_alert_circle_params_ok [of depth M dt v]
    alert_circle_test_event_truncated
  by blast

theorem get_alert_circle_params_small_event_witness:
  "(53 / 10 :: real) < 6 \<and> (0 :: real) \<le> 2777 / 100 \<and>
   (\<exists>d. get_alert_circle_params (53 / 10) (7971 / 1000) (355 / 100) (2777 / 100) = Inr d \<and>
        dict_keys d = [0, 10, 20])"
  using get_alert_circle_params_small_event [of "53 / 10" "7971 / 1000" "355 / 100" "2777 / 100"]
  by auto

text \<open>
  C8 as stated fails: rounded to the nearest metre, the radii of that event are 5436,
  57436 and 95335, not 5436, 57435 and 95334.
\<close>

theorem alert_circle_nearest_metre_counterexample:
  "map_sum id nearest_radii
     (get_alert_circle_params (53 / 10) (7971 / 1000) (355 / 100) (2777 / 100))
   \<noteq> Inr [5436, 57435, 95334]"
  unfolding alert_circle_test_event_nearest by simp

subsection \<open>ParseJSONContent: the minimum MMI\<close>

lemma map_of_dict_set: "map_of (dict_set k v d) = (map_of d)(k \<mapsto> v)"
  by (induction d) (auto simp: fun_eq_iff)

lemma keys_dict_set: "set (dict_keys (dict_set k v d)) = insert k (set (dict_keys d))"
  by (induction d) (auto simp: dict_keys_def)

lemma keys_fold_dict_set:
  "set (dict_keys (fold (\<lambda>m d. dict_set (fst m) (snd m) d) xs d0)) = fst ` set xs \<union> set (dict_keys d0)"
  by (induction xs arbitrary: d0) (auto simp: keys_dict_set)

lemma map_of_fold_dict_set:
  "map_of (fold (\<lambda>m d. dict_set (fst m) (snd m) d) xs d0) k = Some v \<Longrightarrow>
     (k, v) \<in> set xs \<or> map_of d0 k = Some v"
proof (induction xs arbitrary: d0)
  case Nil
  then show ?case by simp
next
  case (Cons x xs)
  from Cons.IH [of "dict_set (fst x) (snd x) d0"] Cons.prems
  show ?case by (auto simp: map_of_dict_set split: if_splits)
qed

lemma py_min_Min: "xs \<noteq> [] \<Longrightarrow> py_min xs = Inr (Min (set xs))"
  by (cases xs) (simp_all add: py_min_def flip: Min.set_eq_fold)

lemma py_bind_Inr [simp]: "py_bind (Inr x) f = f x"
  by (simp add: py_bind_def)

lemma py_bind_Inl [simp]: "py_bind (Inl e) f = Inl e"
  by (simp add: py_bind_def)

lemma py_bind_returns: "py_bind m f = Inr r \<longleftrightarrow> (\<exists>x. m = Inr x \<and> f x = Inr r)"
  by (cases m) simp_all

lemma float_pair_swap:
  "float_pair pf a b = Inr p \<Longrightarrow> float_pair pf b a = Inr (snd p, fst p)"
  by (auto simp: float_pair_def split: option.splits)

lemma latlon_loop_rev:
  "latlon_loop pf ks False = Inr l \<Longrightarrow> latlon_loop pf ks True = Inr (map (\<lambda>p. (snd p, fst p)) l)"
proof (induction ks arbitrary: l)
  case Nil
  then show ?case by simp
next
  case (Cons k ks)
  then obtain la lo kk foo where k: "py_split CHR '','' k = [la, lo]"
    and fp: "float_pair pf la lo = Inr kk" and rest: "latlon_loop pf ks False = Inr foo"
    and l: "l = kk # foo"
    by (auto split: list.splits sum.splits)
  from Cons.IH [OF rest] float_pair_swap [OF fp] k l show ?case by simp
qed

lemma numeric_of_latlon:
  "latlon_string_to_list pf s False = Inr l \<Longrightarrow>
     latlon_list_to_numeric pf (py_split_ws s) True = Inr (map (\<lambda>p. (snd p, fst p)) l)"
  by (simp add: latlon_string_to_list_def latlon_list_to_numeric_def latlon_loop_rev)

lemma polygonList_loop_entries:
  "polygonList_loop pf t xs a b = Inr (pl, pnl) \<Longrightarrow>
     \<exists>ys. pl = a @ ys \<and>
       list_all2 (\<lambda>out m. \<exists>l. latlon_string_to_list pf (snd m) False = Inr l \<and> out = (fst m, [l]))
         ys (filter (\<lambda>m. t \<le> fst m) xs)"
proof (induction xs arbitrary: a b)
  case Nil
  then show ?case by simp
next
  case (Cons m xs)
  show ?case
  proof (cases "t \<le> fst m")
    case True
    with Cons.prems obtain l n where l: "latlon_string_to_list pf (snd m) False = Inr l"
      and run: "polygonList_loop pf t xs (a @ [(fst m, [l])]) (b @ [n]) = Inr (pl, pnl)"
      by (auto split: sum.splits)
    from Cons.IH [OF run] obtain ys where "pl = (a @ [(fst m, [l])]) @ ys"
      and "list_all2 (\<lambda>out m. \<exists>l. latlon_string_to_list pf (snd m) False = Inr l \<and> out = (fst m, [l]))
         ys (filter (\<lambda>m. t \<le> fst m) xs)"
      by blast
    with True l show ?thesis by (intro exI [of _ "(fst m, [l]) # ys"]) simp
  next
    case False
    with Cons show ?thesis by simp
  qed
qed

lemma polygonList_loop_returns:
  "\<forall>m \<in> set xs. returns (latlon_string_to_list pf (snd m) False) \<Longrightarrow>
     \<exists>r. polygonList_loop pf t xs a b = Inr r"
proof (induction xs arbitrary: a b)
  case Nil
  then show ?case by simp
next
  case (Cons m xs)
  then obtain l where l: "latlon_string_to_list pf (snd m) False = Inr l"
    by (cases "latlon_string_to_list pf (snd m) False") (auto simp: returns_def)
  from Cons l numeric_of_latlon [OF l] show ?case by simp
qed


lemma opt_block_Some:
  "opt_block f x = Inr y \<Longrightarrow> x = Some a \<Longrightarrow> \<exists>b. f a = Inr b \<and> y = Some b"
  by (cases "f a") (auto simp: opt_block_def)

lemma snapshot_block_entries:
  assumes "snapshot_block pf t gm = Inr fv"
    and "\<forall>c \<in> set gm. 0 \<le> json_mmi c \<and> json_mmi c \<le> 9"
  shows "list_all2
           (\<lambda>out c. \<exists>l. latlon_string_to_list pf (json_polygon c) False = Inr l \<and>
                        out = (json_mmi c, [l]))
           (polygonList fv) (filter (\<lambda>c. t \<le> json_mmi c) (sort_key (\<lambda>c. - json_mmi c) gm))"
proof -
  define L where "L = map (\<lambda>c. (json_mmi c, json_polygon c)) (sort_key (\<lambda>c. - json_mmi c) gm)"
  have g: "Get_polygons gm = Inr L"
    using Get_polygons_single_digit [OF assms(2)] by (simp add: L_def)
  with assms(1) obtain lists where
    loop: "polygonList_loop pf t L [] [] = Inr lists" and fv: "polygonList fv = fst lists"
    by (auto simp: snapshot_block_def py_bind_returns)
  from polygonList_loop_entries [of pf t L "[]" "[]" "fst lists" "snd lists"] loop fv
  have "list_all2
          (\<lambda>out m. \<exists>l. latlon_string_to_list pf (snd m) False = Inr l \<and> out = (fst m, [l]))
          (polygonList fv) (filter (\<lambda>m. t \<le> fst m) L)"
    by simp
  then show ?thesis
    by (simp add: L_def filter_map comp_def list_all2_map2)
qed

lemma initial_block_selection:
  assumes "initial_block pf t gm = Inr iv"
    and "\<forall>c \<in> set gm. 0 \<le> json_mmi c \<and> json_mmi c \<le> 9"
  shows "\<exists>c l. c \<in> set gm \<and> latlon_string_to_list pf (json_polygon c) False = Inr l \<and>
           initial_polygonList iv = [(json_mmi c, l)] \<and>
           json_mmi c = (if t \<in> json_mmi ` set gm then t else Min (json_mmi ` set gm))"
proof -
  define L where "L = map (\<lambda>c. (json_mmi c, json_polygon c)) (sort_key (\<lambda>c. - json_mmi c) gm)"
  define D where "D = fold (\<lambda>m d. dict_set (fst m) (snd m) d) L []"
  have g: "Get_polygons gm = Inr L"
    using Get_polygons_single_digit [OF assms(2)] by (simp add: L_def)
  have setL: "set L = (\<lambda>c. (json_mmi c, json_polygon c)) ` set gm"
    by (simp add: L_def)
  have keys: "set (dict_keys D) = json_mmi ` set gm"
    using keys_fold_dict_set [of L "[]"] by (simp add: D_def dict_keys_def setL image_image)
  from assms(1) g obtain s poly l where
    sel: "(if t \<in> set (dict_keys D) then Inr t else py_min (dict_keys D)) = Inr s" and
    get: "dict_get D s = Inr poly" and
    conv: "latlon_string_to_list pf poly False = Inr l" and
    iv: "initial_polygonList iv = [(s, l)]"
    unfolding initial_block_def D_def by (auto simp: Let_def py_bind_returns)
  have s: "s = (if t \<in> json_mmi ` set gm then t else Min (json_mmi ` set gm))"
  proof (cases "t \<in> json_mmi ` set gm")
    case True
    with sel keys show ?thesis by simp
  next
    case False
    with sel keys have m: "py_min (dict_keys D) = Inr s" by simp
    then have "dict_keys D \<noteq> []" by (auto simp: py_min_def)
    with m keys False show ?thesis by (simp add: py_min_Min)
  qed
  from get have "map_of D s = Some poly"
    by (simp add: dict_get_def split: option.splits)
  then have "(s, poly) \<in> set L"
    using map_of_fold_dict_set [of L "[]" s poly] by (simp add: D_def)
  with setL obtain c where "c \<in> set gm" "json_mmi c = s" "json_polygon c = poly" by auto
  with conv iv s show ?thesis
    by (intro exI [of _ c] exI [of _ l] conjI) simp_all
qed

lemma initial_block_returns:
  assumes "gm \<noteq> []"
    and "\<forall>c \<in> set gm. 0 \<le> json_mmi c \<and> json_mmi c \<le> 9"
    and "\<forall>c \<in> set gm. returns (latlon_string_to_list pf (json_polygon c) False)"
    and "returns (parse_gm_contours gm)"
  shows "\<exists>iv. initial_block pf t gm = Inr iv"
proof -
  define L where "L = map (\<lambda>c. (json_mmi c, json_polygon c)) (sort_key (\<lambda>c. - json_mmi c) gm)"
  define D where "D = fold (\<lambda>m d. dict_set (fst m) (snd m) d) L []"
  have g: "Get_polygons gm = Inr L"
    using Get_polygons_single_digit [OF assms(2)] by (simp add: L_def)
  have setL: "set L = (\<lambda>c. (json_mmi c, json_polygon c)) ` set gm"
    by (simp add: L_def)
  have keys: "set (dict_keys D) = json_mmi ` set gm"
    using keys_fold_dict_set [of L "[]"] by (simp add: D_def dict_keys_def setL image_image)
  with assms(1) have ne: "dict_keys D \<noteq> []" by auto
  define s where "s = (if t \<in> set (dict_keys D) then t else Min (set (dict_keys D)))"
  have sel: "(if t \<in> set (dict_keys D) then Inr t else py_min (dict_keys D)) = Inr s"
    using ne by (simp add: s_def py_min_Min)
  have "s \<in> set (dict_keys D)"
    using ne by (auto simp: s_def intro!: Min_in)
  then have "s \<in> fst ` set D" by (simp add: dict_keys_def)
  then obtain poly where mo: "map_of D s = Some poly"
    by (metis domD dom_map_of_conv_image_fst)
  then have "(s, poly) \<in> set L"
    using map_of_fold_dict_set [of L "[]" s poly] by (simp add: D_def)
  with setL obtain c where "c \<in> set gm" "json_polygon c = poly" by auto
  with assms(3) obtain l where l: "latlon_string_to_list pf poly False = Inr l"
    by (cases "latlon_string_to_list pf poly False") (auto simp: returns_def)
  from assms(4) obtain cs where cs: "parse_gm_contours gm = Inr cs"
    by (cases "parse_gm_contours gm") (auto simp: returns_def)
  have "initial_block pf t gm =
      py_bind (if t \<in> set (dict_keys D) then Inr t else py_min (dict_keys D)) (\<lambda>MMItoShow.
       py_bind (dict_get D MMItoShow) (\<lambda>polygon_string.
       py_bind (latlon_list_to_numeric pf (py_split_ws polygon_string) True)
         (\<lambda>numeric_list.
       py_bind (latlon_string_to_list pf polygon_string False) (\<lambda>latlon_list.
       py_bind (parse_gm_contours gm) (\<lambda>contours.
         Inr \<lparr>initial_MMIlist = L,
              initial_polygonList = [(MMItoShow, latlon_list)],
              initial_polygonNumericList = numeric_list,
              initial_contours = contours\<rparr>)))))"
    using g unfolding D_def by (simp add: initial_block_def Let_def)
  with sel mo l numeric_of_latlon [OF l] cs show ?thesis
    by (simp add: dict_get_def)
qed

text \<open>
  C3 (amended). The one display contour is chosen for the initial alert only. Its target
  level \<open>t\<close> is the module-level \<open>MMItoUse\<close>, which is \<open>MMIAlert\<close> when the module is
  loaded: it is \<open>MMISmall\<close> when the ANSS magnitude is available and below
  \<open>MagMapChange\<close>, and when there is no ANSS magnitude and the initial magnitude is below
  \<open>MagMapChange\<close>; it is \<open>MMIAlert\<close> when the initial magnitude and the ANSS magnitude,
  if there is one, are at or above \<open>MagMapChange\<close>. For every non-empty contour list with
  MMI values from 0 to 9 whose polygon strings convert to floats and are closed, the block
  returns, and the display contour is a contour of the list with its polygon converted:
  one of MMI \<open>t\<close> when the list has a contour of MMI \<open>t\<close>, and one of the least MMI of
  the list otherwise.
\<close>

theorem initial_display_contour_rule:
  assumes "t = decide_MMItoUse cfg (MMIAlert cfg) anss im"
    and "gm \<noteq> []"
    and "\<forall>c \<in> set gm. 0 \<le> json_mmi c \<and> json_mmi c \<le> 9"
    and "\<forall>c \<in> set gm. returns (latlon_string_to_list pf (json_polygon c) False)"
    and "returns (parse_gm_contours gm)"
  shows "(\<exists>iv c l. initial_block pf t gm = Inr iv \<and> c \<in> set gm \<and>
            latlon_string_to_list pf (json_polygon c) False = Inr l \<and>
            initial_polygonList iv = [(json_mmi c, l)] \<and>
            json_mmi c = (if t \<in> json_mmi ` set gm then t else Min (json_mmi ` set gm))) \<and>
         ((\<exists>a. anss = Some a \<and> a < MagMapChange cfg) \<longrightarrow> t = MMISmall cfg) \<and>
         (anss = None \<and> im < MagMapChange cfg \<longrightarrow> t = MMISmall cfg) \<and>
         ((\<forall>a. anss = Some a \<longrightarrow> MagMapChange cfg \<le> a) \<and> MagMapChange cfg \<le> im
            \<longrightarrow> t = MMIAlert cfg)"
proof (intro conjI)
  from initial_block_returns [OF assms(2-5)] obtain iv where
    iv: "initial_block pf t gm = Inr iv" by blast
  from initial_block_selection [OF iv assms(3)] iv
  show "\<exists>iv c l. initial_block pf t gm = Inr iv \<and> c \<in> set gm \<and>
            latlon_string_to_list pf (json_polygon c) False = Inr l \<and>
            initial_polygonList iv = [(json_mmi c, l)] \<and>
            json_mmi c = (if t \<in> json_mmi ` set gm then t else Min (json_mmi ` set gm))"
    by blast
next
  show "(\<exists>a. anss = Some a \<and> a < MagMapChange cfg) \<longrightarrow> t = MMISmall cfg"
    using assms(1) by (auto simp: decide_MMItoUse_def)
next
  show "anss = None \<and> im < MagMapChange cfg \<longrightarrow> t = MMISmall cfg"
    using assms(1) by (auto simp: decide_MMItoUse_def)
next
  show "(\<forall>a. anss = Some a \<longrightarrow> MagMapChange cfg \<le> a) \<and> MagMapChange cfg \<le> im
            \<longrightarrow> t = MMIAlert cfg"
    using assms(1) by (auto simp: decide_MMItoUse_def split: option.splits)
qed


lemmas contour_eval = Get_polygons_def py_str_def str_nat.simps py_int_1_def is_digit_def
  digit_val_def digit_char_def initial_block_def snapshot_block_def dict_keys_def dict_get_def
  py_min_def decide_MMItoUse_def two_tier_min_mmi_def Let_def latlon_list_to_numeric_def
  latlon_string_to_list_def float_pair_def py_split_ws_def py_strip_def is_space_def
  GMContour_init_def Coord_ne_def returns_def opt_block_def ParseJSONContent_contours_def

theorem initial_display_contour_rule_witness:
  "map_sum id initial_polygonList
     (initial_block (map_of [(''0'', 0), (''1'', 1), (''2'', 2), (''4'', 4), (''6'', 6), (''7'', 7)]) 3
        [\<lparr>json_mmi = 6, json_pga = 0, json_pgv = 0, json_polygon = ''6,6 6,7 7,7 6,6''\<rparr>,
         \<lparr>json_mmi = 2, json_pga = 0, json_pgv = 0, json_polygon = ''0,0 0,2 2,2 0,0''\<rparr>,
         \<lparr>json_mmi = 4, json_pga = 0, json_pgv = 0, json_polygon = ''1,1 1,4 4,4 1,1''\<rparr>])
     = Inr [(2, [(0, 0), (0, 2), (2, 2), (0, 0)])] \<and>
   decide_MMItoUse \<lparr>MagMapChange = 5, MMISmall = 3, MMIAlert = 4\<rparr> 4 None (49 / 10) = 3"
proof -
  let ?pf = "map_of [(''0'', 0 :: real), (''1'', 1), (''2'', 2), (''4'', 4), (''6'', 6), (''7'', 7)]"
  let ?gm = "[\<lparr>json_mmi = 6, json_pga = 0, json_pgv = 0, json_polygon = ''6,6 6,7 7,7 6,6''\<rparr>,
         \<lparr>json_mmi = 2, json_pga = 0, json_pgv = 0, json_polygon = ''0,0 0,2 2,2 0,0''\<rparr>,
         \<lparr>json_mmi = 4, json_pga = 0, json_pgv = 0, json_polygon = ''1,1 1,4 4,4 1,1''\<rparr>]"
  have t: "(3 :: int) = decide_MMItoUse \<lparr>MagMapChange = 5, MMISmall = 3, MMIAlert = 4\<rparr>
      (MMIAlert \<lparr>MagMapChange = 5, MMISmall = 3, MMIAlert = 4\<rparr>) None (49 / 10)"
    by (simp add: decide_MMItoUse_def)
  have ne: "?gm \<noteq> []" by simp
  have sd: "\<forall>c \<in> set ?gm. 0 \<le> json_mmi c \<and> json_mmi c \<le> 9" by simp
  have conv: "\<forall>c \<in> set ?gm. returns (latlon_string_to_list ?pf (json_polygon c) False)"
    by (simp add: contour_eval)
  have pg: "returns (parse_gm_contours ?gm)"
    by (simp add: contour_eval)
  show ?thesis
    using initial_display_contour_rule [OF t ne sd conv pg]
    by (simp add: contour_eval)
qed


text \<open>
  C3 as stated fails. With boundary 5.0, small-event MMI 3 and large-event MMI 4, and
  contours of MMI 4 and 3: an initial alert of magnitude 6.0 whose event has an ANSS
  magnitude of 4.0 gets the MMI-3 contour as its display contour; the target of the
  snapshot's own magnitude is 4, for which the MMI-4 contour is selected.
\<close>

theorem display_contour_own_magnitude_counterexample:
  "map_sum id initial_polygonList
     (initial_block (map_of [(''0'', 0), (''1'', 1), (''3'', 3), (''4'', 4)])
        (decide_MMItoUse \<lparr>MagMapChange = 5, MMISmall = 3, MMIAlert = 4\<rparr> 4 (Some 4) 6)
        [\<lparr>json_mmi = 4, json_pga = 0, json_pgv = 0, json_polygon = ''1,1 1,3 3,3 1,1''\<rparr>,
         \<lparr>json_mmi = 3, json_pga = 0, json_pgv = 0, json_polygon = ''0,0 0,4 4,4 0,0''\<rparr>])
     = Inr [(3, [(0, 0), (0, 4), (4, 4), (0, 0)])] \<and>
   map_sum id initial_polygonList
     (initial_block (map_of [(''0'', 0), (''1'', 1), (''3'', 3), (''4'', 4)])
        (two_tier_min_mmi \<lparr>MagMapChange = 5, MMISmall = 3, MMIAlert = 4\<rparr> 6)
        [\<lparr>json_mmi = 4, json_pga = 0, json_pgv = 0, json_polygon = ''1,1 1,3 3,3 1,1''\<rparr>,
         \<lparr>json_mmi = 3, json_pga = 0, json_pgv = 0, json_polygon = ''0,0 0,4 4,4 0,0''\<rparr>])
     = Inr [(4, [(1, 1), (1, 3), (3, 3), (1, 1)])]"
  by (simp add: contour_eval)

text \<open>
  C1 (amended). \<open>ParseJSONContent\<close> decides one minimum MMI per event record, the
  module-level \<open>MMItoUse\<close>, and applies this one value to all three snapshots: the
  initial display contour is selected with it (the contour of this MMI, or of the least
  MMI when there is none), and the final and the peak-magnitude polygon lists hold
  exactly the contours whose MMI is at least that value, in descending order of MMI, each
  with its polygon converted to floats. The value is \<open>MMISmall\<close> when the ANSS magnitude
  is available and below \<open>MagMapChange\<close>, and when there is no ANSS magnitude and the
  initial magnitude is below \<open>MagMapChange\<close>; when the initial magnitude and the ANSS
  magnitude, if there is one, are at or above \<open>MagMapChange\<close> it stays what the module
  held before the call. The magnitudes of the peak-magnitude and the final snapshot play
  no part. Stated for a call that returns, on contours with MMI values from 0 to 9.
\<close>

theorem ParseJSONContent_one_threshold:
  assumes "ParseJSONContent_contours pf cfg g ev = Inr r"
    and "t = decide_MMItoUse cfg g (ANSSmag ev) (initial_mag ev)"
    and "\<forall>gm. initial_gm_contours ev = Some gm \<longrightarrow>
           (\<forall>c \<in> set gm. 0 \<le> json_mmi c \<and> json_mmi c \<le> 9)"
    and "\<forall>gm. final_gm_contours ev = Some gm \<longrightarrow>
           (\<forall>c \<in> set gm. 0 \<le> json_mmi c \<and> json_mmi c \<le> 9)"
    and "\<forall>gm. peak_mag_gm_contours ev = Some gm \<longrightarrow>
           (\<forall>c \<in> set gm. 0 \<le> json_mmi c \<and> json_mmi c \<le> 9)"
  shows "MMItoUse_now r = t \<and>
     (\<forall>gm. initial_gm_contours ev = Some gm \<longrightarrow>
        (\<exists>iv c l. initial_part r = Some iv \<and> c \<in> set gm \<and>
           latlon_string_to_list pf (json_polygon c) False = Inr l \<and>
           initial_polygonList iv = [(json_mmi c, l)] \<and>
           json_mmi c = (if t \<in> json_mmi ` set gm then t else Min (json_mmi ` set gm)))) \<and>
     (\<forall>gm. final_gm_contours ev = Some gm \<longrightarrow>
        (\<exists>fv. final_part r = Some fv \<and>
           list_all2
             (\<lambda>out c. \<exists>l. latlon_string_to_list pf (json_polygon c) False = Inr l \<and>
                          out = (json_mmi c, [l]))
             (polygonList fv)
             (filter (\<lambda>c. t \<le> json_mmi c) (sort_key (\<lambda>c. - json_mmi c) gm)))) \<and>
     (\<forall>gm. peak_mag_gm_contours ev = Some gm \<longrightarrow>
        (\<exists>pv. peak_mag_part r = Some pv \<and>
           list_all2
             (\<lambda>out c. \<exists>l. latlon_string_to_list pf (json_polygon c) False = Inr l \<and>
                          out = (json_mmi c, [l]))
             (polygonList pv)
             (filter (\<lambda>c. t \<le> json_mmi c) (sort_key (\<lambda>c. - json_mmi c) gm)))) \<and>
     ((\<exists>a. ANSSmag ev = Some a \<and> a < MagMapChange cfg) \<longrightarrow> t = MMISmall cfg) \<and>
     (ANSSmag ev = None \<and> initial_mag ev < MagMapChange cfg \<longrightarrow> t = MMISmall cfg) \<and>
     ((\<forall>a. ANSSmag ev = Some a \<longrightarrow> MagMapChange cfg \<le> a) \<and> MagMapChange cfg \<le> initial_mag ev
        \<longrightarrow> t = g)"
proof -
  from assms(1,2) obtain ini fin peak where
    i: "opt_block (initial_block pf t) (initial_gm_contours ev) = Inr ini" and
    f: "opt_block (snapshot_block pf t) (final_gm_contours ev) = Inr fin" and
    p: "opt_block (snapshot_block pf t) (peak_mag_gm_contours ev) = Inr peak" and
    r: "r = \<lparr>MMItoUse_now = t, initial_part = ini, final_part = fin, peak_mag_part = peak\<rparr>"
    by (auto simp: ParseJSONContent_contours_def Let_def py_bind_returns)
  have "\<forall>gm. initial_gm_contours ev = Some gm \<longrightarrow>
        (\<exists>iv c l. initial_part r = Some iv \<and> c \<in> set gm \<and>
           latlon_string_to_list pf (json_polygon c) False = Inr l \<and>
           initial_polygonList iv = [(json_mmi c, l)] \<and>
           json_mmi c = (if t \<in> json_mmi ` set gm then t else Min (json_mmi ` set gm)))"
  proof (intro allI impI)
    fix gm
    assume gm: "initial_gm_contours ev = Some gm"
    from opt_block_Some [OF i gm] obtain iv where
      iv: "initial_block pf t gm = Inr iv" "ini = Some iv" by blast
    from assms(3) gm have "\<forall>c \<in> set gm. 0 \<le> json_mmi c \<and> json_mmi c \<le> 9" by blast
    from initial_block_selection [OF iv(1) this] iv(2) r
    show "\<exists>iv c l. initial_part r = Some iv \<and> c \<in> set gm \<and>
           latlon_string_to_list pf (json_polygon c) False = Inr l \<and>
           initial_polygonList iv = [(json_mmi c, l)] \<and>
           json_mmi c = (if t \<in> json_mmi ` set gm then t else Min (json_mmi ` set gm))"
      by simp
  qed
  moreover have "\<forall>gm. final_gm_contours ev = Some gm \<longrightarrow>
        (\<exists>fv. final_part r = Some fv \<and>
           list_all2
             (\<lambda>out c. \<exists>l. latlon_string_to_list pf (json_polygon c) False = Inr l \<and>
                          out = (json_mmi c, [l]))
             (polygonList fv)
             (filter (\<lambda>c. t \<le> json_mmi c) (sort_key (\<lambda>c. - json_mmi c) gm)))"
  proof (intro allI impI)
    fix gm
    assume gm: "final_gm_contours ev = Some gm"
    from opt_block_Some [OF f gm] obtain fv where
      fv: "snapshot_block pf t gm = Inr fv" "fin = Some fv" by blast
    from assms(4) gm have "\<forall>c \<in> set gm. 0 \<le> json_mmi c \<and> json_mmi c \<le> 9" by blast
    from snapshot_block_entries [OF fv(1) this] fv(2) r
    show "\<exists>fv. final_part r = Some fv \<and>
           list_all2
             (\<lambda>out c. \<exists>l. latlon_string_to_list pf (json_polygon c) False = Inr l \<and>
                          out = (json_mmi c, [l]))
             (polygonList fv)
             (filter (\<lambda>c. t \<le> json_mmi c) (sort_key (\<lambda>c. - json_mmi c) gm))"
      by simp
  qed
  moreover have "\<forall>gm. peak_mag_gm_contours ev = Some gm \<longrightarrow>
        (\<exists>pv. peak_mag_part r = Some pv \<and>
           list_all2
             (\<lambda>out c. \<exists>l. latlon_string_to_list pf (json_polygon c) False = Inr l \<and>
                          out = (json_mmi c, [l]))
             (polygonList pv)
             (filter (\<lambda>c. t \<le> json_mmi c) (sort_key (\<lambda>c. - json_mmi c) gm)))"
  proof (intro allI impI)
    fix gm
    assume gm: "peak_mag_gm_contours ev = Some gm"
    from opt_block_Some [OF p gm] obtain pv where
      pv: "snapshot_block pf t gm = Inr pv" "peak = Some pv" by blast
    from assms(5) gm have "\<forall>c \<in> set gm. 0 \<le> json_mmi c \<and> json_mmi c \<le> 9" by blast
    from snapshot_block_entries [OF pv(1) this] pv(2) r
    show "\<exists>pv. peak_mag_part r = Some pv \<and>
           list_all2
             (\<lambda>out c. \<exists>l. latlon_string_to_list pf (json_polygon c) False = Inr l \<and>
                          out = (json_mmi c, [l]))
             (polygonList pv)
             (filter (\<lambda>c. t \<le> json_mmi c) (sort_key (\<lambda>c. - json_mmi c) gm))"
      by simp
  qed
  moreover have "(\<exists>a. ANSSmag ev = Some a \<and> a < MagMapChange cfg) \<longrightarrow> t = MMISmall cfg"
    using assms(2) by (auto simp: decide_MMItoUse_def)
  moreover have "ANSSmag ev = None \<and> initial_mag ev < MagMapChange cfg \<longrightarrow> t = MMISmall cfg"
    using assms(2) by (auto simp: decide_MMItoUse_def)
  moreover have "(\<forall>a. ANSSmag ev = Some a \<longrightarrow> MagMapChange cfg \<le> a) \<and>
      MagMapChange cfg \<le> initial_mag ev \<longrightarrow> t = g"
    using assms(2) by (auto simp: decide_MMItoUse_def split: option.splits)
  moreover have "MMItoUse_now r = t" using r by simp
  ultimately show ?thesis by (intro conjI)
qed

text \<open>
  C1 as stated fails: with boundary 5.0, small-event MMI 3 and large-event MMI 4, an
  event with initial magnitude 4.0 and final magnitude 6.0 (and no ANSS magnitude) has
  the MMI-3 contour in its final polygon list; with the threshold of its own magnitude
  the final snapshot keeps the MMI-4 contour only.
\<close>

theorem final_snapshot_threshold_counterexample:
  "map_sum id (map_option polygonList \<circ> final_part)
     (ParseJSONContent_contours (map_of [(''0'', 0), (''1'', 1), (''3'', 3), (''4'', 4)])
        \<lparr>MagMapChange = 5, MMISmall = 3, MMIAlert = 4\<rparr> 4
        \<lparr>ANSSmag = None, initial_mag = 4, peak_mag = 6, mag = 6,
         initial_gm_contours = None,
         final_gm_contours = Some
           [\<lparr>json_mmi = 4, json_pga = 0, json_pgv = 0, json_polygon = ''1,1 1,3 3,3 1,1''\<rparr>,
            \<lparr>json_mmi = 3, json_pga = 0, json_pgv = 0, json_polygon = ''0,0 0,4 4,4 0,0''\<rparr>],
         peak_mag_gm_contours = None\<rparr>)
     = Inr (Some [(4, [[(1, 1), (1, 3), (3, 3), (1, 1)]]),
                  (3, [[(0, 0), (0, 4), (4, 4), (0, 0)]])]) \<and>
   map_sum id polygonList
     (snapshot_block (map_of [(''0'', 0), (''1'', 1), (''3'', 3), (''4'', 4)])
        (two_tier_min_mmi \<lparr>MagMapChange = 5, MMISmall = 3, MMIAlert = 4\<rparr> 6)
        [\<lparr>json_mmi = 4, json_pga = 0, json_pgv = 0, json_polygon = ''1,1 1,3 3,3 1,1''\<rparr>,
         \<lparr>json_mmi = 3, json_pga = 0, json_pgv = 0, json_polygon = ''0,0 0,4 4,4 0,0''\<rparr>])
     = Inr [(4, [[(1, 1), (1, 3), (3, 3), (1, 1)]])]"
  by (simp add: contour_eval)

theorem ParseJSONContent_one_threshold_witness:
  "map_sum id (\<lambda>r. (MMItoUse_now r, map_option initial_polygonList (initial_part r),
                    map_option polygonList (final_part r),
                    map_option polygonList (peak_mag_part r)))
     (ParseJSONContent_contours (map_of [(''0'', 0), (''1'', 1), (''2'', 2), (''3'', 3), (''4'', 4)])
        \<lparr>MagMapChange = 5, MMISmall = 3, MMIAlert = 4\<rparr> 4
        \<lparr>ANSSmag = None, initial_mag = 4, peak_mag = 6, mag = 6,
         initial_gm_contours = Some
           [\<lparr>json_mmi = 4, json_pga = 0, json_pgv = 0, json_polygon = ''1,1 1,2 2,2 1,1''\<rparr>,
            \<lparr>json_mmi = 2, json_pga = 0, json_pgv = 0, json_polygon = ''0,0 0,3 3,3 0,0''\<rparr>],
         final_gm_contours = Some
           [\<lparr>json_mmi = 4, json_pga = 0, json_pgv = 0, json_polygon = ''1,1 1,3 3,3 1,1''\<rparr>,
            \<lparr>json_mmi = 3, json_pga = 0, json_pgv = 0, json_polygon = ''0,0 0,4 4,4 0,0''\<rparr>],
         peak_mag_gm_contours = Some
           [\<lparr>json_mmi = 2, json_pga = 0, json_pgv = 0, json_polygon = ''0,0 0,4 4,4 0,0''\<rparr>,
            \<lparr>json_mmi = 5, json_pga = 0, json_pgv = 0, json_polygon = ''2,2 2,3 3,3 2,2''\<rparr>]\<rparr>)
     = Inr (3, Some [(2, [(0, 0), (0, 3), (3, 3), (0, 0)])],
            Some [(4, [[(1, 1), (1, 3), (3, 3), (1, 1)]]), (3, [[(0, 0), (0, 4), (4, 4), (0, 0)]])],
            Some [(5, [[(2, 2), (2, 3), (3, 3), (2, 2)]])]) \<and>
   decide_MMItoUse \<lparr>MagMapChange = 5, MMISmall = 3, MMIAlert = 4\<rparr> 4 None 4 = 3"
proof -
  let ?pf = "map_of [(''0'', 0 :: real), (''1'', 1), (''2'', 2), (''3'', 3), (''4'', 4)]"
  let ?cfg = "\<lparr>MagMapChange = 5, MMISmall = 3, MMIAlert = 4\<rparr>"
  let ?ev = "\<lparr>ANSSmag = None, initial_mag = 4, peak_mag = 6, mag = 6,
         initial_gm_contours = Some
           [\<lparr>json_mmi = 4, json_pga = 0, json_pgv = 0, json_polygon = ''1,1 1,2 2,2 1,1''\<rparr>,
            \<lparr>json_mmi = 2, json_pga = 0, json_pgv = 0, json_polygon = ''0,0 0,3 3,3 0,0''\<rparr>],
         final_gm_contours = Some
           [\<lparr>json_mmi = 4, json_pga = 0, json_pgv = 0, json_polygon = ''1,1 1,3 3,3 1,1''\<rparr>,
            \<lparr>json_mmi = 3, json_pga = 0, json_pgv = 0, json_polygon = ''0,0 0,4 4,4 0,0''\<rparr>],
         peak_mag_gm_contours = Some
           [\<lparr>json_mmi = 2, json_pga = 0, json_pgv = 0, json_polygon = ''0,0 0,4 4,4 0,0''\<rparr>,
            \<lparr>json_mmi = 5, json_pga = 0, json_pgv = 0, json_polygon = ''2,2 2,3 3,3 2,2''\<rparr>]\<rparr>"
  obtain r where run: "ParseJSONContent_contours ?pf ?cfg 4 ?ev = Inr r"
    by (simp add: contour_eval)
  have i: "\<forall>gm. initial_gm_contours ?ev = Some gm \<longrightarrow>
           (\<forall>c \<in> set gm. 0 \<le> json_mmi c \<and> json_mmi c \<le> 9)" by auto
  have f: "\<forall>gm. final_gm_contours ?ev = Some gm \<longrightarrow>
           (\<forall>c \<in> set gm. 0 \<le> json_mmi c \<and> json_mmi c \<le> 9)" by auto
  have p: "\<forall>gm. peak_mag_gm_contours ?ev = Some gm \<longrightarrow>
           (\<forall>c \<in> set gm. 0 \<le> json_mmi c \<and> json_mmi c \<le> 9)" by auto
  show ?thesis
    using ParseJSONContent_one_threshold [OF run refl i f p]
    by (simp add: contour_eval)
qed

subsection \<open>getCityList and the promotion of the first slot\<close>

lemma slots_inv_update:
  assumes "slots_inv cities la lo categories st" "k < length categories"
    "(c, v) \<in> set cities" "category v = categories ! k"
    "distanceBetween la lo (city_lat v) (city_lon v) = Inr d"
  shows "slots_inv cities la lo categories ((fst st)[k := Some c], (snd st)[k := d])"
  using assms unfolding slots_inv_def
  by (auto simp: nth_list_update)

lemma slots_loop_inv:
  assumes "(c, v) \<in> set cities" "\<forall>i \<in> set idxs. i < length categories"
    "slots_inv cities la lo categories st" "slots_loop categories c v la lo idxs st = Inr st'"
  shows "slots_inv cities la lo categories st'"
  using assms
proof (induction idxs arbitrary: st)
  case Nil
  then show ?case by simp
next
  case (Cons i idxs)
  show ?case
  proof (cases "categories ! i = category v")
    case False
    with Cons show ?thesis by simp
  next
    case True
    with Cons.prems obtain d where d: "distanceBetween la lo (city_lat v) (city_lon v) = Inr d"
      by (auto split: sum.splits)
    show ?thesis
    proof (cases "d < snd st ! i \<and> \<not> exclude_city categories (fst st) i c")
      case False
      with True d Cons show ?thesis by auto
    next
      case upd: True
      have "slots_inv cities la lo categories ((fst st)[i := Some c], (snd st)[i := d])"
        using Cons.prems True d by (intro slots_inv_update) auto
      moreover have "slots_loop categories c v la lo idxs
          ((fst st)[i := Some c], (snd st)[i := d]) = Inr st'"
        using Cons.prems(4) True d upd by simp
      ultimately show ?thesis using Cons.IH Cons.prems(1,2) by simp
    qed
  qed
qed

lemma cities_loop_inv:
  assumes "set rest \<subseteq> set cities" "slots_inv cities la lo categories st"
    "cities_loop categories la lo rest st = Inr st'"
  shows "slots_inv cities la lo categories st'"
  using assms
proof (induction rest arbitrary: st)
  case Nil
  then show ?case by simp
next
  case (Cons item rest)
  from Cons.prems(3) obtain st1 where
    s1: "slots_loop categories (fst item) (snd item) la lo [0..<length categories] st = Inr st1"
    and s2: "cities_loop categories la lo rest st1 = Inr st'"
    by (auto split: sum.splits)
  have "(fst item, snd item) \<in> set cities" using Cons.prems(1) by simp
  then have "slots_inv cities la lo categories st1"
    using slots_loop_inv [OF _ _ Cons.prems(2) s1] by simp
  with Cons.IH s2 Cons.prems(1) show ?case by simp
qed

lemma nearest_cities_scan_inv:
  "nearest_cities_scan cities la lo categories = Inr st \<Longrightarrow> slots_inv cities la lo categories st"
  unfolding nearest_cities_scan_def
  by (erule cities_loop_inv [rotated 2]) (simp_all add: slots_inv_def)

lemma result_loop_None:
  "(cat, None, d) \<in> set slots \<Longrightarrow> \<exists>e. result_loop cities la lo depth delta slots res = Inl e"
proof (induction slots arbitrary: res)
  case Nil
  then show ?case by simp
next
  case (Cons s slots)
  then show ?case
    by (cases "s = (cat, None, d)") (auto simp: Let_def split: option.splits sum.splits)
qed

lemma missing_slot_None:
  assumes "\<forall>item \<in> set cities. category (snd item) \<noteq> cat"
    and "nearest_cities_scan cities la lo categories = Inr st"
    and "k < length categories" "categories ! k = cat"
  shows "fst st ! k = None"
proof (rule ccontr)
  assume "fst st ! k \<noteq> None"
  then obtain c where "fst st ! k = Some c" by auto
  moreover have "slots_inv cities la lo categories st"
    using assms(2) by (rule nearest_cities_scan_inv)
  ultimately obtain v where "(c, v) \<in> set cities" "category v = cat"
    using assms(3,4) unfolding slots_inv_def by blast
  with assms(1) show False by force
qed

lemma distanceBetween_same: "distanceBetween a b a b = Inr 0"
  by (simp add: distanceBetween_def py_sqrt_def py_atan2_def Let_def)

lemma distanceBetween_antipode: "distanceBetween 0 0 0 180 = Inr (6371009 / 1000 * pi)"
  by (simp add: distanceBetween_def py_sqrt_def py_atan2_def radians_def Let_def)

lemma bearing_same: "calculate_initial_compass_bearing (0, 0) (0, 0) = 0"
  by (simp add: calculate_initial_compass_bearing_def py_atan2_def radians_def degrees_def py_float_mod_def Let_def)

lemma bearing_antipode: "calculate_initial_compass_bearing (0, 180) (0, 0) = 0"
  by (simp add: calculate_initial_compass_bearing_def py_atan2_def radians_def degrees_def py_float_mod_def Let_def)

lemma compass_0: "get_compass_direction 0 = Inr ''N''"
  by (simp add: get_compass_direction_def py_getitem_def py_int_of_float_def Let_def)

lemma py_float_mod_bounds: "0 < b \<Longrightarrow> 0 \<le> py_float_mod a b \<and> py_float_mod a b < b"
proof -
  assume b: "0 < b"
  have lo: "of_int \<lfloor>a / b\<rfloor> * b \<le> a"
    using b of_int_floor_le [of "a / b"] by (simp only: pos_le_divide_eq)
  have hi: "a < (of_int \<lfloor>a / b\<rfloor> + 1) * b"
    using b real_of_int_floor_add_one_gt [of "a / b"] by (simp only: pos_divide_less_eq)
  from lo hi show ?thesis by (simp add: py_float_mod_def algebra_simps)
qed

lemma get_compass_direction_ok:
  assumes "0 \<le> x" "x < 360"
  shows "\<exists>s. get_compass_direction x = Inr s"
proof -
  define i1 where "i1 = (if x - 45 / 2 < 0 then x - 45 / 2 + 360 else x - 45 / 2)"
  have "0 \<le> i1 / 45" "i1 / 45 < 8" using assms by (auto simp: i1_def)
  then have "0 \<le> \<lfloor>i1 / 45\<rfloor>" "\<lfloor>i1 / 45\<rfloor> < 8" by (simp_all add: floor_less_iff)
  then have "nat \<lfloor>i1 / 45\<rfloor> < 8" by linarith
  then show ?thesis
    unfolding get_compass_direction_def Let_def i1_def [symmetric]
    using \<open>0 \<le> i1 / 45\<close> \<open>0 \<le> \<lfloor>i1 / 45\<rfloor>\<close>
    by (simp add: py_getitem_def py_int_of_float_def eval_nat_numeral)
qed

lemma compass_of_bearing_ok:
  "\<exists>s. get_compass_direction (calculate_initial_compass_bearing pA pB) = Inr s"
  unfolding calculate_initial_compass_bearing_def Let_def
  using py_float_mod_bounds [of 360] by (intro get_compass_direction_ok) simp_all

lemma result_loop_error:
  "result_loop cities la lo depth delta slots res = Inl e \<Longrightarrow> e = KeyError"
proof (induction slots arbitrary: res)
  case Nil
  then show ?case by simp
next
  case (Cons s slots)
  show ?case
  proof (cases "fst (snd s)")
    case None
    with Cons.prems show ?thesis by (simp add: Let_def)
  next
    case (Some name)
    show ?thesis
    proof (cases "dict_get cities name")
      case (Inl e')
      then have "e' = KeyError" by (auto simp: dict_get_def split: option.splits)
      with Cons.prems Some Inl show ?thesis by (simp add: Let_def)
    next
      case (Inr vals)
      obtain b where
        "get_compass_direction
           (calculate_initial_compass_bearing (city_lat vals, city_lon vals) (la, lo)) = Inr b"
        using compass_of_bearing_ok by blast
      with Cons Some Inr show ?thesis by (simp add: Let_def)
    qed
  qed
qed

lemma result_loop_step:
  assumes "result_loop cities la lo depth delta ((cat, nc, d) # rest) res = Inr out"
  shows "\<exists>name info. nc = Some name \<and>
           result_loop cities la lo depth delta rest (dict_set name info res) = Inr out \<and>
           res_distance info = d"
proof -
  from assms obtain name where n: "nc = Some name"
    by (cases nc) (auto simp: Let_def)
  with assms obtain vals where v: "dict_get cities name = Inr vals"
    by (cases "dict_get cities name") (auto simp: Let_def)
  with assms n obtain b where b: "get_compass_direction
      (calculate_initial_compass_bearing (city_lat vals, city_lon vals) (la, lo)) = Inr b"
    by (cases "get_compass_direction
      (calculate_initial_compass_bearing (city_lat vals, city_lon vals) (la, lo))")
       (auto simp: Let_def)
  define info where "info = \<lparr>res_lat = city_lat vals, res_lon = city_lon vals,
     res_category = cat, res_distance = d,
     res_time = max (sqrt (depth\<^sup>2 + d\<^sup>2) / (355 / 100) - delta) 0, res_bearing = b\<rparr>"
  have "result_loop cities la lo depth delta rest (dict_set name info res) = Inr out"
    using assms n v b unfolding info_def by (simp add: Let_def)
  moreover have "res_distance info = d" by (simp add: info_def)
  ultimately show ?thesis using n by blast
qed

lemma list4:
  assumes "length xs = 4"
  obtains x0 x1 x2 x3 where "xs = [x0, x1, x2, x3]"
proof -
  from assms obtain x0 r0 where "xs = x0 # r0" "length r0 = 3" by (cases xs) auto
  moreover then obtain x1 r1 where "r0 = x1 # r1" "length r1 = 2" by (cases r0) auto
  moreover then obtain x2 r2 where "r1 = x2 # r2" "length r2 = 1" by (cases r1) auto
  moreover then obtain x3 where "r2 = [x3]" by (cases r2) auto
  ultimately show ?thesis using that by blast
qed

lemma distinct_same_value:
  "distinct (map fst cities) \<Longrightarrow> (n, v) \<in> set cities \<Longrightarrow> (n, w) \<in> set cities \<Longrightarrow> v = w"
  by (meson eq_key_imp_eq_value)

lemma slots_inv_nth:
  assumes "slots_inv cities la lo categories (ncs, ds)" "k < length categories" "ncs ! k = Some c"
  shows "\<exists>v. (c, v) \<in> set cities \<and> category v = categories ! k \<and>
             distanceBetween la lo (city_lat v) (city_lon v) = Inr (ds ! k)"
  using assms unfolding slots_inv_def by simp

lemma dict_set4_keys:
  assumes "n0 \<noteq> n1" "n0 \<noteq> n2" "n0 \<noteq> n3" "n1 \<noteq> n3" "n2 \<noteq> n3"
  shows "dict_keys (dict_set n3 i3 (dict_set n2 i2 (dict_set n1 i1 (dict_set n0 i0 [])))) ! 0 = n0"
    and "dict_keys (dict_set n3 i3 (dict_set n2 i2 (dict_set n1 i1 (dict_set n0 i0 [])))) ! 1 = n1"
    and "2 \<le> length (dict_keys (dict_set n3 i3 (dict_set n2 i2 (dict_set n1 i1 (dict_set n0 i0 [])))))"
  using assms by (simp_all add: dict_keys_def)

lemma dict_set4_get:
  assumes "n0 \<noteq> n1" "n0 \<noteq> n2" "n0 \<noteq> n3" "n1 \<noteq> n3" "n2 \<noteq> n3"
  shows "map_of (dict_set n3 i3 (dict_set n2 i2 (dict_set n1 i1 (dict_set n0 i0 [])))) n0 = Some i0"
    and "map_of (dict_set n3 i3 (dict_set n2 i2 (dict_set n1 i1 (dict_set n0 i0 [])))) n1
           = Some (if n2 = n1 then i2 else i1)"
  using assms by (simp_all add: map_of_dict_set)

lemma different_category:
  assumes "distinct (map fst cities)" "(n, v) \<in> set cities" "(m, w) \<in> set cities"
    "category v \<noteq> category w"
  shows "n \<noteq> m"
proof
  assume "n = m"
  with assms(3) have "(n, w) \<in> set cities" by simp
  with assms(1,2) have "v = w" by (rule distinct_same_value)
  with assms(4) show False by simp
qed

lemma py_getitem_nat: "k < length xs \<Longrightarrow> py_getitem xs (int k) = Inr (xs ! k)"
  by (simp add: py_getitem_def Let_def)

lemma dict_set4_getitem:
  assumes "n0 \<noteq> n1" "n0 \<noteq> n2" "n0 \<noteq> n3" "n1 \<noteq> n3" "n2 \<noteq> n3"
  shows "py_getitem (dict_keys (dict_set n3 i3 (dict_set n2 i2 (dict_set n1 i1 (dict_set n0 i0 []))))) 0 = Inr n0"
    and "py_getitem (dict_keys (dict_set n3 i3 (dict_set n2 i2 (dict_set n1 i1 (dict_set n0 i0 []))))) 1 = Inr n1"
proof -
  let ?ks = "dict_keys (dict_set n3 i3 (dict_set n2 i2 (dict_set n1 i1 (dict_set n0 i0 []))))"
  have l: "0 < length ?ks" "1 < length ?ks"
    using dict_set4_keys(3) [OF assms, of i3 i2 i1 i0] by linarith+
  show "py_getitem ?ks 0 = Inr n0"
    using py_getitem_nat [OF l(1)] dict_set4_keys(1) [OF assms, of i3 i2 i1 i0] by simp
  show "py_getitem ?ks 1 = Inr n1"
    using py_getitem_nat [OF l(2)] dict_set4_keys(2) [OF assms, of i3 i2 i1 i0] by simp
qed

lemma dict_set4_dict_get:
  assumes "n0 \<noteq> n1" "n0 \<noteq> n2" "n0 \<noteq> n3" "n1 \<noteq> n3" "n2 \<noteq> n3"
  shows "dict_get (dict_set n3 i3 (dict_set n2 i2 (dict_set n1 i1 (dict_set n0 i0 [])))) n0 = Inr i0"
    and "dict_get (dict_set n3 i3 (dict_set n2 i2 (dict_set n1 i1 (dict_set n0 i0 [])))) n1
           = Inr (if n2 = n1 then i2 else i1)"
  unfolding dict_get_def
  by (simp_all only: dict_set4_get [OF assms] option.case)

lemma antipode_bounds: "6371009 * pi < 1000000000"
proof -
  have "6371009 * pi < 6371009 * 4" using pi_less_4 by simp
  then show ?thesis by simp
qed

lemmas scan_eval = nearest_cities_scan_def distanceBetween_same distanceBetween_antipode
  exclude_city_def antipode_bounds upt_rec [of _ "numeral _"] upt_rec [of _ "Suc _"]

lemmas result_eval = getCityList_def dict_get_def bearing_same bearing_antipode compass_0 Let_def

lemma getCityList_slot_None:
  assumes "nearest_cities_scan cities la lo categories = Inr st"
    and "k < length categories" "fst st ! k = None"
  shows "getCityList cities la lo depth categories delta = Inl KeyError"
proof -
  have "slots_inv cities la lo categories st"
    using assms(1) by (rule nearest_cities_scan_inv)
  then have len: "length (fst st) = length categories" "length (snd st) = length categories"
    by (simp_all add: slots_inv_def)
  have "(categories ! k, None, snd st ! k) \<in> set (zip categories (zip (fst st) (snd st)))"
    using assms(2,3) len by (auto simp: in_set_zip intro!: exI [of _ k])
  then obtain e where
    "result_loop cities la lo depth delta (zip categories (zip (fst st) (snd st))) [] = Inl e"
    using result_loop_None by blast
  moreover from this have "e = KeyError" by (rule result_loop_error)
  ultimately show ?thesis using assms(1) by (simp add: getCityList_def)
qed

text \<open>
  C4 (amended). When a requested category has no entry in the catalog, every slot of that
  category is still the placeholder \<open>None\<close> after the scan, and the query does not return
  a result: the lookup of the placeholder in the catalog raises KeyError (when the scan
  itself came through), so no dict with the other slots is returned.
\<close>

theorem getCityList_missing_category:
  assumes "cat \<in> set categories" and "\<forall>item \<in> set cities. category (snd item) \<noteq> cat"
  shows "(\<exists>e. getCityList cities la lo depth categories delta = Inl e) \<and>
         (\<forall>st. nearest_cities_scan cities la lo categories = Inr st \<longrightarrow>
            getCityList cities la lo depth categories delta = Inl KeyError \<and>
            (\<forall>k < length categories. categories ! k = cat \<longrightarrow> fst st ! k = None))"
proof -
  from assms(1) obtain k where k: "k < length categories" "categories ! k = cat"
    by (auto simp: in_set_conv_nth)
  have part2: "getCityList cities la lo depth categories delta = Inl KeyError \<and>
      (\<forall>k < length categories. categories ! k = cat \<longrightarrow> fst st ! k = None)"
    if scan: "nearest_cities_scan cities la lo categories = Inr st" for st
  proof
    have "fst st ! k = None" using assms(2) scan k by (rule missing_slot_None)
    with scan k(1) show "getCityList cities la lo depth categories delta = Inl KeyError"
      by (rule getCityList_slot_None)
    show "\<forall>k < length categories. categories ! k = cat \<longrightarrow> fst st ! k = None"
      using missing_slot_None [OF assms(2) scan] by simp
  qed
  have "\<exists>e. getCityList cities la lo depth categories delta = Inl e"
  proof (cases "nearest_cities_scan cities la lo categories")
    case (Inl e)
    then show ?thesis by (simp add: getCityList_def)
  next
    case (Inr st)
    then show ?thesis using part2 by blast
  qed
  with part2 show ?thesis by blast
qed

theorem getCityList_missing_category_witness:
  "getCityList
     [(''Near'', \<lparr>city_lat = 0, city_lon = 0, population = 50000, category = ''B''\<rparr>)]
     0 0 10 [''B'', ''A''] 0 = Inl KeyError"
proof -
  have scan: "nearest_cities_scan
     [(''Near'', \<lparr>city_lat = 0, city_lon = 0, population = 50000, category = ''B''\<rparr>)]
     0 0 [''B'', ''A''] = Inr ([Some ''Near'', None], [0, 1000000])"
    by (simp add: scan_eval)
  have "''A'' \<in> set [''B'', ''A'']" by simp
  moreover have "\<forall>item \<in> set
     [(''Near'', \<lparr>city_lat = 0, city_lon = 0, population = 50000, category = ''B''\<rparr>)].
       category (snd item) \<noteq> ''A''" by simp
  ultimately show ?thesis
    using getCityList_missing_category [of "''A''" "[''B'', ''A'']"
      "[(''Near'', \<lparr>city_lat = 0, city_lon = 0, population = 50000, category = ''B''\<rparr>)]"
      0 0 10 0] scan
    by blast
qed

text \<open>
  C4 as stated fails: with a catalog that has cities of the categories C and B but none of
  category A, the scan fills the first three slots of C,B,B,A and leaves the fourth as
  \<open>None\<close>, and \<open>getCityList\<close> raises KeyError instead of returning the three cities.
\<close>

theorem getCityList_missing_category_counterexample:
  "nearest_cities_scan
     [(''Far'', \<lparr>city_lat = 0, city_lon = 180, population = 5000, category = ''C''\<rparr>),
      (''Near'', \<lparr>city_lat = 0, city_lon = 0, population = 50000, category = ''B''\<rparr>),
      (''Next'', \<lparr>city_lat = 0, city_lon = 0, population = 60000, category = ''B''\<rparr>)]
     0 0 [''C'', ''B'', ''B'', ''A'']
   = Inr ([Some ''Far'', Some ''Near'', Some ''Next'', None],
          [6371009 / 1000 * pi, 0, 0, 1000000]) \<and>
   getCityList
     [(''Far'', \<lparr>city_lat = 0, city_lon = 180, population = 5000, category = ''C''\<rparr>),
      (''Near'', \<lparr>city_lat = 0, city_lon = 0, population = 50000, category = ''B''\<rparr>),
      (''Next'', \<lparr>city_lat = 0, city_lon = 0, population = 60000, category = ''B''\<rparr>)]
     0 0 10 [''C'', ''B'', ''B'', ''A''] 0
   = Inl KeyError"
  by (simp add: scan_eval result_eval)

text \<open>
  C2. Let the catalog have each city name once, and let the first run, with the
  categories C,B,B,A, return. Its first slot then holds a city of category C and its
  second slot one of category B, each with its distance from the reference point. When
  the second slot's distance is strictly less than the first slot's, the selection is
  the result of one more call of \<open>getCityList\<close>, with B,B,B,A, whatever that call gives;
  otherwise it is the result of the first run. Nothing else is compared.
\<close>

theorem closest_cities_one_promotion:
  assumes dist: "distinct (map fst cities)"
    and scan: "nearest_cities_scan cities la lo [''C'', ''B'', ''B'', ''A''] = Inr (nearest_cities, distances)"
    and run: "getCityList cities la lo depth [''C'', ''B'', ''B'', ''A''] delta = Inr first_run"
  shows "closest_cities_selection cities la lo depth delta =
           (if distances ! 1 < distances ! 0
            then getCityList cities la lo depth [''B'', ''B'', ''B'', ''A''] delta
            else Inr first_run) \<and>
         (\<exists>c vc b vb.
            nearest_cities ! 0 = Some c \<and> (c, vc) \<in> set cities \<and> category vc = ''C'' \<and>
            distanceBetween la lo (city_lat vc) (city_lon vc) = Inr (distances ! 0) \<and>
            nearest_cities ! 1 = Some b \<and> (b, vb) \<in> set cities \<and> category vb = ''B'' \<and>
            distanceBetween la lo (city_lat vb) (city_lon vb) = Inr (distances ! 1))"
proof -
  have inv: "slots_inv cities la lo [''C'', ''B'', ''B'', ''A''] (nearest_cities, distances)"
    using scan by (rule nearest_cities_scan_inv)
  then have len: "length nearest_cities = 4" "length distances = 4"
    by (simp_all add: slots_inv_def)
  obtain a0 a1 a2 a3 where ncs: "nearest_cities = [a0, a1, a2, a3]"
    using len(1) by (rule list4)
  obtain d0 d1 d2 d3 where ds: "distances = [d0, d1, d2, d3]"
    using len(2) by (rule list4)
  from run scan ncs ds have
    "result_loop cities la lo depth delta
       [(''C'', a0, d0), (''B'', a1, d1), (''B'', a2, d2), (''A'', a3, d3)] [] = Inr first_run"
    by (simp add: getCityList_def)
  from result_loop_step [OF this] obtain n0 i0 where
    0: "a0 = Some n0" "res_distance i0 = d0" and
    r0: "result_loop cities la lo depth delta
       [(''B'', a1, d1), (''B'', a2, d2), (''A'', a3, d3)] (dict_set n0 i0 []) = Inr first_run"
    by blast
  from result_loop_step [OF r0] obtain n1 i1 where
    1: "a1 = Some n1" "res_distance i1 = d1" and
    r1: "result_loop cities la lo depth delta
       [(''B'', a2, d2), (''A'', a3, d3)] (dict_set n1 i1 (dict_set n0 i0 [])) = Inr first_run"
    by blast
  from result_loop_step [OF r1] obtain n2 i2 where
    2: "a2 = Some n2" "res_distance i2 = d2" and
    r2: "result_loop cities la lo depth delta
       [(''A'', a3, d3)] (dict_set n2 i2 (dict_set n1 i1 (dict_set n0 i0 []))) = Inr first_run"
    by blast
  from result_loop_step [OF r2] obtain n3 i3 where
    3: "a3 = Some n3" and
    r3: "result_loop cities la lo depth delta []
       (dict_set n3 i3 (dict_set n2 i2 (dict_set n1 i1 (dict_set n0 i0 [])))) = Inr first_run"
    by blast
  then have fr: "first_run = dict_set n3 i3 (dict_set n2 i2 (dict_set n1 i1 (dict_set n0 i0 [])))"
    by simp
  from slots_inv_nth [OF inv, of 0 n0] ncs ds 0 obtain v0 where
    v0: "(n0, v0) \<in> set cities" "category v0 = ''C''"
      "distanceBetween la lo (city_lat v0) (city_lon v0) = Inr d0"
    by auto
  from slots_inv_nth [OF inv, of 1 n1] ncs ds 1 obtain v1 where
    v1: "(n1, v1) \<in> set cities" "category v1 = ''B''"
      "distanceBetween la lo (city_lat v1) (city_lon v1) = Inr d1"
    by auto
  from slots_inv_nth [OF inv, of 2 n2] ncs ds 2 obtain v2 where
    v2: "(n2, v2) \<in> set cities" "category v2 = ''B''"
      "distanceBetween la lo (city_lat v2) (city_lon v2) = Inr d2"
    by auto
  from slots_inv_nth [OF inv, of 3 n3] ncs ds 3 obtain v3 where
    v3: "(n3, v3) \<in> set cities" "category v3 = ''A''"
    by auto
  have ne: "n0 \<noteq> n1" "n0 \<noteq> n2" "n0 \<noteq> n3" "n1 \<noteq> n3" "n2 \<noteq> n3"
    using different_category [OF dist v0(1) v1(1)] different_category [OF dist v0(1) v2(1)]
      different_category [OF dist v0(1) v3(1)] different_category [OF dist v1(1) v3(1)]
      different_category [OF dist v2(1) v3(1)] v0(2) v1(2) v2(2) v3(2)
    by simp_all
  have same: "n2 = n1 \<Longrightarrow> d2 = d1"
    using distinct_same_value [OF dist v1(1), of v2] v1(3) v2(1,3) by simp
  have k0: "py_getitem (dict_keys first_run) 0 = Inr n0"
    unfolding fr by (rule dict_set4_getitem(1) [OF ne])
  have k1: "py_getitem (dict_keys first_run) 1 = Inr n1"
    unfolding fr by (rule dict_set4_getitem(2) [OF ne])
  have g0: "dict_get first_run n0 = Inr i0"
    unfolding fr by (rule dict_set4_dict_get(1) [OF ne])
  have g1: "dict_get first_run n1 = Inr (if n2 = n1 then i2 else i1)"
    unfolding fr by (rule dict_set4_dict_get(2) [OF ne])
  have dist1: "res_distance (if n2 = n1 then i2 else i1) = d1"
    using same 1(2) 2(2) by simp
  have nth: "distances ! 1 = d1" "distances ! 0 = d0" "nearest_cities ! 0 = Some n0"
    "nearest_cities ! 1 = Some n1"
    using ncs ds 0 1 by simp_all
  have sel: "closest_cities_selection cities la lo depth delta =
       (if distances ! 1 < distances ! 0
        then getCityList cities la lo depth [''B'', ''B'', ''B'', ''A''] delta
        else Inr first_run)"
    unfolding closest_cities_selection_def nth
    by (simp only: run k0 k1 g0 g1 sum.case 0(2) dist1)
  have slots: "\<exists>c vc b vb.
            nearest_cities ! 0 = Some c \<and> (c, vc) \<in> set cities \<and> category vc = ''C'' \<and>
            distanceBetween la lo (city_lat vc) (city_lon vc) = Inr (distances ! 0) \<and>
            nearest_cities ! 1 = Some b \<and> (b, vb) \<in> set cities \<and> category vb = ''B'' \<and>
            distanceBetween la lo (city_lat vb) (city_lon vb) = Inr (distances ! 1)"
    unfolding nth using v0 v1
    by (intro exI [of _ n0] exI [of _ v0] exI [of _ n1] exI [of _ v1]) simp
  from sel slots show ?thesis by (rule conjI)
qed

theorem closest_cities_one_promotion_witness:
  "closest_cities_selection
     [(''Far'', \<lparr>city_lat = 0, city_lon = 180, population = 5000, category = ''C''\<rparr>),
      (''Near'', \<lparr>city_lat = 0, city_lon = 0, population = 50000, category = ''B''\<rparr>),
      (''Next'', \<lparr>city_lat = 0, city_lon = 0, population = 60000, category = ''B''\<rparr>),
      (''Third'', \<lparr>city_lat = 0, city_lon = 0, population = 70000, category = ''B''\<rparr>),
      (''Big'', \<lparr>city_lat = 0, city_lon = 0, population = 700000, category = ''A''\<rparr>)]
     0 0 10 0
   = getCityList
     [(''Far'', \<lparr>city_lat = 0, city_lon = 180, population = 5000, category = ''C''\<rparr>),
      (''Near'', \<lparr>city_lat = 0, city_lon = 0, population = 50000, category = ''B''\<rparr>),
      (''Next'', \<lparr>city_lat = 0, city_lon = 0, population = 60000, category = ''B''\<rparr>),
      (''Third'', \<lparr>city_lat = 0, city_lon = 0, population = 70000, category = ''B''\<rparr>),
      (''Big'', \<lparr>city_lat = 0, city_lon = 0, population = 700000, category = ''A''\<rparr>)]
     0 0 10 [''B'', ''B'', ''B'', ''A''] 0"
proof -
  let ?cities = "[(''Far'', \<lparr>city_lat = 0, city_lon = 180, population = 5000, category = ''C''\<rparr>),
      (''Near'', \<lparr>city_lat = 0, city_lon = 0, population = 50000, category = ''B''\<rparr>),
      (''Next'', \<lparr>city_lat = 0, city_lon = 0, population = 60000, category = ''B''\<rparr>),
      (''Third'', \<lparr>city_lat = 0, city_lon = 0, population = 70000, category = ''B''\<rparr>),
      (''Big'', \<lparr>city_lat = 0, city_lon = 0, population = 700000, category = ''A''\<rparr>)]"
  have names: "distinct (map fst ?cities)" by simp
  have scan: "nearest_cities_scan ?cities 0 0 [''C'', ''B'', ''B'', ''A'']
      = Inr ([Some ''Far'', Some ''Near'', Some ''Next'', Some ''Big''],
             [6371009 / 1000 * pi, 0, 0, 0])"
    by (simp add: scan_eval)
  have "\<exists>first_run. getCityList ?cities 0 0 10 [''C'', ''B'', ''B'', ''A''] 0 = Inr first_run"
    by (simp add: scan result_eval)
  then obtain first_run where
    run: "getCityList ?cities 0 0 10 [''C'', ''B'', ''B'', ''A''] 0 = Inr first_run" ..
  show ?thesis
    using closest_cities_one_promotion [OF names scan run] by simp
qed

subsection \<open>getTimeDelta\<close>














subsection \<open>GMContourFilter\<close>

lemma filter_gm_contours_loop_filter:
  "filter_gm_contours_loop self cs event_mag temp =
     temp @ filter (\<lambda>c. meets_contour_criteria self c event_mag) cs"
  by (induction cs arbitrary: temp) auto

text \<open>
  The filter of \<open>PDFCreate\<close>, set up from the same configuration, does follow the rule
  of one snapshot's own magnitude: it keeps the contours whose MMI is at least
  \<open>two_tier_min_mmi\<close> of the magnitude it is called with.
\<close>

lemma filter_gm_contours_own_magnitude:
  "filter_gm_contours
     \<lparr>mag_threshold = MagMapChange cfg, min_mmi_small_event = real_of_int (MMISmall cfg),
      min_mmi_large_event = real_of_int (MMIAlert cfg)\<rparr> cs event_mag
   = filter (\<lambda>c. two_tier_min_mmi cfg event_mag \<le> mmi c) cs"
  by (simp add: filter_gm_contours_def filter_gm_contours_loop_filter
      meets_contour_criteria_def two_tier_min_mmi_def not_less [symmetric])

end
